theory Spec2Isabelle
  imports Complex_Main "HOL-Library.Word"
begin

section \<open>JavaScript strings\<close>

text \<open>
  A JavaScript string is a sequence of UTF-16 code units: \<open>===\<close> compares the
  sequences, \<open>.length\<close> counts the units, and the empty string is the only falsy one.
  String literals of the source are ASCII and are written \<open>js ''...''\<close>.
\<close>

type_synonym js_string = "16 word list"

definition js :: "string \<Rightarrow> js_string" where
  "js s = map (\<lambda>c. word_of_nat (of_char c)) s"

text \<open>\<open>s.startsWith(p)\<close>: the first \<open>p.length\<close> units of \<open>s\<close> are \<open>p\<close>.\<close>

definition startsWith :: "js_string \<Rightarrow> js_string \<Rightarrow> bool" where
  "startsWith s p = (take (length p) s = p)"

text \<open>Truthiness of a value that is a string or \<open>undefined\<close>/\<open>null\<close>.\<close>

fun truthy :: "js_string option \<Rightarrow> bool" where
  "truthy None = False"
| "truthy (Some s) = (s \<noteq> [])"

section \<open>Route protection: \<open>src/app/middleware.ts\<close>\<close>

text \<open>
  A URL as far as the middleware uses it: the origin, the path and the search parameters
  (an ordered list of name/value pairs, as \<open>URLSearchParams\<close> keeps them).
\<close>

record url =
  url_origin :: js_string
  url_pathname :: js_string
  url_searchParams :: "(js_string \<times> js_string) list"

text \<open>\<open>new URL(path, base)\<close> for an absolute path: the base's origin, the given path,
  no search parameters.\<close>

definition new_URL :: "js_string \<Rightarrow> url \<Rightarrow> url" where
  "new_URL path base =
     \<lparr>url_origin = url_origin base, url_pathname = path, url_searchParams = []\<rparr>"

text \<open>\<open>searchParams.set(name, value)\<close>: the first pair of that name takes the value and
  the later ones are dropped; with no such pair, one is appended.\<close>

fun searchParams_set ::
  "js_string \<Rightarrow> js_string \<Rightarrow> (js_string \<times> js_string) list \<Rightarrow> (js_string \<times> js_string) list" where
  "searchParams_set name v [] = [(name, v)]"
| "searchParams_set name v ((k, w) # ps) =
     (if k = name then (name, v) # filter (\<lambda>p. fst p \<noteq> name) ps
      else (k, w) # searchParams_set name v ps)"

text \<open>\<open>searchParams.get(name)\<close>: the value of the first pair of that name, or \<open>null\<close>.\<close>

definition searchParams_get :: "js_string \<Rightarrow> (js_string \<times> js_string) list \<Rightarrow> js_string option" where
  "searchParams_get name ps = map_of ps name"

text \<open>
  The request: \<open>request.nextUrl.pathname\<close>, \<open>request.url\<close> and the cookie jar
  (\<open>request.cookies.get(name)?.value\<close> is the jar applied to the name).
\<close>

record next_request =
  nextUrl_pathname :: js_string
  request_url :: url
  cookies :: "js_string \<rightharpoonup> js_string"

datatype next_response = Redirect url | Next

definition isProtectedRoute :: "js_string \<Rightarrow> bool" where
  "isProtectedRoute pathname =
     (startsWith pathname (js ''/dashboard'') \<or> startsWith pathname (js ''/auth/protected''))"

definition middleware :: "next_request \<Rightarrow> next_response" where
  "middleware request =
     (let pathname = nextUrl_pathname request;
          authToken = cookies request (js ''auth-token'');
          isAuthenticated = (truthy authToken \<or> pathname = js ''/auth/login'')
      in if isProtectedRoute pathname \<and> \<not> isAuthenticated then
           (let loginUrl = new_URL (js ''/auth/login'') (request_url request)
            in Redirect (loginUrl\<lparr>url_searchParams :=
                 searchParams_set (js ''redirect'') pathname (url_searchParams loginUrl)\<rparr>))
         else if pathname = js ''/auth/login'' \<and> truthy authToken then
           Redirect (new_URL (js ''/dashboard'') (request_url request))
         else Next)"

section \<open>The posts route handlers: \<open>src/app/api/posts/route.ts\<close>\<close>

text \<open>A stored post. The ids the handlers store are whole numbers (the literals 1, 2, 3 and
  \<open>mockPosts.length + 1\<close>).\<close>

record post =
  post_id :: int
  post_title :: js_string
  post_content :: js_string

text \<open>The module-level \<open>mockPosts\<close> as the module initialises it. The handlers mutate it;
  in the model each handler takes the stored list and returns the new one.\<close>

definition mockPosts :: "post list" where
  "mockPosts =
     [\<lparr>post_id = 1, post_title = js ''First Post'',
        post_content = js ''This is the first post content''\<rparr>,
      \<lparr>post_id = 2, post_title = js ''Second Post'',
        post_content = js ''This is the second post content''\<rparr>,
      \<lparr>post_id = 3, post_title = js ''Third Post'',
        post_content = js ''This is the third post content''\<rparr>]"

subsection \<open>The request body and the schema\<close>

text \<open>
  The value \<open>request.json()\<close> resolves to, as far as the schema looks at it: the schema
  reads the type of a value, the own properties of an object (each name once) and the
  units of a string. The value of a number is never read.
\<close>

datatype json =
    JNull
  | JBoolean bool
  | JNumber
  | JString js_string
  | JArray "json list"
  | JObject "(js_string \<times> json) list"

text \<open>The type the validation library reports for a value; \<open>undefined\<close> is a missing
  property.\<close>

datatype parsed_type =
  T_undefined | T_null | T_boolean | T_number | T_string | T_array | T_object

fun getParsedType :: "json option \<Rightarrow> parsed_type" where
  "getParsedType None = T_undefined"
| "getParsedType (Some JNull) = T_null"
| "getParsedType (Some (JBoolean b)) = T_boolean"
| "getParsedType (Some JNumber) = T_number"
| "getParsedType (Some (JString s)) = T_string"
| "getParsedType (Some (JArray xs)) = T_array"
| "getParsedType (Some (JObject kvs)) = T_object"

text \<open>
  An issue of a failed validation: where (\<open>path\<close>) and what. The library's message text is
  a function of the kind of issue and its bound; the model keeps the kind in its place.
\<close>

datatype issue_code =
    invalid_type parsed_type parsed_type
  | too_small nat
  | too_big nat

record zod_issue =
  issue_path :: "js_string list"
  issue_message :: issue_code

text \<open>\<open>z.string().min(lo).max(hi)\<close> applied to the property at \<open>path\<close>.\<close>

fun string_min_max :: "nat \<Rightarrow> nat \<Rightarrow> js_string list \<Rightarrow> json option \<Rightarrow> zod_issue list + js_string" where
  "string_min_max lo hi path (Some (JString s)) =
     (if length s < lo then Inl [\<lparr>issue_path = path, issue_message = too_small lo\<rparr>]
      else if hi < length s then Inl [\<lparr>issue_path = path, issue_message = too_big hi\<rparr>]
      else Inr s)"
| "string_min_max lo hi path v =
     Inl [\<lparr>issue_path = path, issue_message = invalid_type T_string (getParsedType v)\<rparr>]"

text \<open>The issues of a result (none when it is a value).\<close>

fun issues_of :: "zod_issue list + 'a \<Rightarrow> zod_issue list" where
  "issues_of (Inl is) = is"
| "issues_of (Inr v) = []"

text \<open>
  \<open>postSchema.parse(body)\<close> for
  \<open>z.object({ title: z.string().min(3).max(100), content: z.string().min(10).max(1000) })\<close>:
  a body that is not an object is one issue at the root; otherwise both properties are
  checked, the issues of both are collected, and the result keeps the two properties only.
  \<open>Inl\<close> is the thrown \<open>ZodError\<close> with its issues.
\<close>

fun postSchema_parse :: "json \<Rightarrow> zod_issue list + (js_string \<times> js_string)" where
  "postSchema_parse (JObject kvs) =
     (let t = string_min_max 3 100 [js ''title''] (map_of kvs (js ''title''));
          c = string_min_max 10 1000 [js ''content''] (map_of kvs (js ''content''))
      in case (t, c) of
           (Inr title, Inr content) \<Rightarrow> Inr (title, content)
         | _ \<Rightarrow> Inl (issues_of t @ issues_of c))"
| "postSchema_parse v =
     Inl [\<lparr>issue_path = [], issue_message = invalid_type T_object (getParsedType (Some v))\<rparr>]"

text \<open>\<open>path.join('.')\<close>\<close>

fun join :: "js_string \<Rightarrow> js_string list \<Rightarrow> js_string" where
  "join sep [] = []"
| "join sep [x] = x"
| "join sep (x # y # ys) = x @ sep @ join sep (y # ys)"

subsection \<open>Requests and responses\<close>

text \<open>The request: its URL, and what \<open>request.json()\<close> gives (\<open>None\<close> when the body is
  not JSON and the promise rejects).\<close>

record api_request =
  req_url :: url
  req_json :: "json option"

datatype details =
    FieldMessages "(js_string \<times> issue_code) list"
  | Issues "zod_issue list"

text \<open>\<open>NextResponse.json(body, { status })\<close>: the status (200 when none is given) and the
  properties of the body, \<open>None\<close> for a property the body does not have.\<close>

record api_response =
  res_status :: nat
  res_success :: bool
  res_data :: "post option"
  res_message :: "js_string option"
  res_error :: "js_string option"
  res_details :: "details option"

definition success_response :: "nat \<Rightarrow> post \<Rightarrow> js_string \<Rightarrow> api_response" where
  "success_response st d m =
     \<lparr>res_status = st, res_success = True, res_data = Some d, res_message = Some m,
      res_error = None, res_details = None\<rparr>"

definition error_response :: "nat \<Rightarrow> js_string \<Rightarrow> details option \<Rightarrow> api_response" where
  "error_response st e ds =
     \<lparr>res_status = st, res_success = False, res_data = None, res_message = None,
      res_error = Some e, res_details = ds\<rparr>"

text \<open>\<open>xs.findIndex(p)\<close>: the index of the first element that satisfies \<open>p\<close>; \<open>None\<close> is
  the source's \<open>-1\<close>.\<close>

fun findIndex :: "('a \<Rightarrow> bool) \<Rightarrow> 'a list \<Rightarrow> nat option" where
  "findIndex p [] = None"
| "findIndex p (x # xs) = (if p x then Some 0 else map_option Suc (findIndex p xs))"

text \<open>\<open>xs.splice(i, 1)\<close> for an index in range: the removed element and the list without
  it.\<close>

definition splice1 :: "nat \<Rightarrow> 'a list \<Rightarrow> 'a \<times> 'a list" where
  "splice1 i xs = (xs ! i, take i xs @ drop (Suc i) xs)"

subsection \<open>The handlers\<close>

text \<open>
  The built-in conversion \<open>Number(id)\<close> of the query parameter is a parameter of the
  handlers that use it: it gives \<open>Some n\<close> when the string converts to the whole number
  \<open>n\<close>, and \<open>None\<close> when it converts to anything else (\<open>NaN\<close>, a fraction, an infinity),
  which \<open>===\<close> no stored id.
\<close>

type_synonym number_conversion = "js_string \<Rightarrow> int option"

text \<open>The string of a parameter that has passed the \<open>!id\<close> test (a missing one never
  reaches the conversion).\<close>

fun string_of :: "js_string option \<Rightarrow> js_string" where
  "string_of None = []"
| "string_of (Some s) = s"

text \<open>\<open>new URL(request.url).searchParams.get('id')\<close>\<close>

definition request_id :: "api_request \<Rightarrow> js_string option" where
  "request_id request = searchParams_get (js ''id'') (url_searchParams (req_url request))"

definition POST :: "api_request \<Rightarrow> post list \<Rightarrow> api_response \<times> post list" where
  "POST request posts =
     (case req_json request of
        None \<Rightarrow> (error_response 500 (js ''Failed to create post'') None, posts)
      | Some body \<Rightarrow>
          (case postSchema_parse body of
             Inl issues \<Rightarrow>
               (error_response 400 (js ''Validation failed'')
                  (Some (FieldMessages
                     (map (\<lambda>issue. (join (js ''.'') (issue_path issue), issue_message issue)) issues))),
                posts)
           | Inr validatedData \<Rightarrow>
               (let newPost = \<lparr>post_id = int (length posts) + 1,
                                post_title = fst validatedData,
                                post_content = snd validatedData\<rparr>
                in (success_response 201 newPost (js ''Post created successfully''),
                    posts @ [newPost]))))"

definition PUT :: "number_conversion \<Rightarrow> api_request \<Rightarrow> post list \<Rightarrow> api_response \<times> post list" where
  "PUT Number request posts =
     (let id = request_id request
      in if \<not> truthy id then (error_response 400 (js ''Post ID is required'') None, posts)
         else
           (case req_json request of
              None \<Rightarrow> (error_response 500 (js ''Failed to update post'') None, posts)
            | Some body \<Rightarrow>
                (case postSchema_parse body of
                   Inl issues \<Rightarrow>
                     (error_response 400 (js ''Validation failed'') (Some (Issues issues)), posts)
                 | Inr validatedData \<Rightarrow>
                     (case findIndex (\<lambda>post. Some (post_id post) = Number (string_of id)) posts of
                        None \<Rightarrow> (error_response 404 (js ''Post not found'') None, posts)
                      | Some postIndex \<Rightarrow>
                          (let updated = (posts ! postIndex)
                                 \<lparr>post_title := fst validatedData,
                                  post_content := snd validatedData\<rparr>
                           in (success_response 200 updated (js ''Post updated successfully''),
                               posts[postIndex := updated]))))))"

definition DELETE :: "number_conversion \<Rightarrow> api_request \<Rightarrow> post list \<Rightarrow> api_response \<times> post list" where
  "DELETE Number request posts =
     (let id = request_id request
      in if \<not> truthy id then (error_response 400 (js ''Post ID is required'') None, posts)
         else
           (case findIndex (\<lambda>post. Some (post_id post) = Number (string_of id)) posts of
              None \<Rightarrow> (error_response 404 (js ''Post not found'') None, posts)
            | Some postIndex \<Rightarrow>
                (let (deletedPost, rest) = splice1 postIndex posts
                 in (success_response 200 deletedPost (js ''Post deleted successfully''), rest))))"

text \<open>
  A conversion for concrete runs: on a non-empty string of at most fifteen ASCII digits
  \<open>Number\<close> gives the number written in decimal. Other strings are outside what the runs
  below use and are left unconverted.
\<close>

definition digit_value :: "16 word \<Rightarrow> int option" where
  "digit_value c = (if 48 \<le> c \<and> c \<le> 57 then Some (int (unat c) - 48) else None)"

fun digits_value :: "int \<Rightarrow> js_string \<Rightarrow> int option" where
  "digits_value acc [] = Some acc"
| "digits_value acc (c # cs) =
     (case digit_value c of None \<Rightarrow> None | Some d \<Rightarrow> digits_value (10 * acc + d) cs)"

definition Number_of_digits :: number_conversion where
  "Number_of_digits s = (if s = [] \<or> 15 < length s then None else digits_value 0 s)"

text \<open>Requests for concrete runs: the URL of the route with the given search parameters, and
  a body that passes the schema.\<close>

definition req_of :: "(js_string \<times> js_string) list \<Rightarrow> json option \<Rightarrow> api_request" where
  "req_of params body =
     \<lparr>req_url = \<lparr>url_origin = js ''http://localhost:3000'', url_pathname = js ''/api/posts'',
                   url_searchParams = params\<rparr>,
      req_json = body\<rparr>"

definition good_body :: json where
  "good_body = JObject [(js ''title'', JString (js ''Edited'')),
                        (js ''content'', JString (js ''Edited content''))]"

section \<open>Authentication: \<open>src/lib/auth/jwt.ts\<close> and \<open>src/lib/auth/auth.ts\<close>\<close>

record user =
  user_id :: int
  user_username :: js_string
  user_password :: js_string
  user_role :: js_string

definition mockUsers :: "user list" where
  "mockUsers =
     [\<lparr>user_id = 1, user_username = js ''demo'', user_password = js ''password123'',
        user_role = js ''user''\<rparr>,
      \<lparr>user_id = 2, user_username = js ''admin'', user_password = js ''admin123'',
        user_role = js ''admin''\<rparr>]"

definition secretKey :: js_string where
  "secretKey = js ''your-very-secure-secret-key-at-least-32-characters-long''"

definition JWT_issuer :: js_string where
  "JWT_issuer = js ''next-methods-demo''"

definition JWT_audience :: js_string where
  "JWT_audience = js ''next-methods-client''"

text \<open>The \<open>expiresIn\<close> of \<open>JWT_CONFIG\<close>, \<open>'1h'\<close>, in seconds.\<close>

definition JWT_expiresIn :: int where
  "JWT_expiresIn = 3600"

text \<open>
  What \<open>generateToken\<close> hands to the signing library: the protected header's algorithm,
  the claims it has set, and the key.
\<close>

record jwt_claims =
  claim_userId :: int
  claim_username :: js_string
  claim_role :: js_string
  claim_iat :: int
  claim_iss :: js_string
  claim_aud :: js_string
  claim_exp :: int

text \<open>
  The library's \<open>sign\<close> is a parameter: from the algorithm, the claims and the key to the
  compact token, \<open>None\<close> when it throws.
\<close>

type_synonym signer = "js_string \<Rightarrow> jwt_claims \<Rightarrow> js_string \<Rightarrow> js_string option"

text \<open>
  \<open>generateToken\<close> at the clock reading \<open>now\<close> (seconds since the epoch, which
  \<open>setIssuedAt()\<close> and \<open>setExpirationTime('1h')\<close> read). \<open>Inl\<close> is the message of the
  \<open>Error\<close> it throws.
\<close>

definition generateToken ::
  "signer \<Rightarrow> int \<Rightarrow> int \<Rightarrow> js_string \<Rightarrow> js_string \<Rightarrow> js_string + js_string" where
  "generateToken sign now userId username role =
     (case sign (js ''HS256'')
             \<lparr>claim_userId = userId, claim_username = username, claim_role = role,
              claim_iat = now, claim_iss = JWT_issuer, claim_aud = JWT_audience,
              claim_exp = now + JWT_expiresIn\<rparr>
             secretKey of
        Some token \<Rightarrow> Inr token
      | None \<Rightarrow> Inl (js ''Failed to generate authentication token''))"

text \<open>\<open>mockUsers.find(...) || null\<close>\<close>

definition findUser :: "js_string \<Rightarrow> js_string \<Rightarrow> user option" where
  "findUser username password =
     find (\<lambda>user. user_username user = username \<and> user_password user = password) mockUsers"

text \<open>The \<open>user\<close> object of the success body.\<close>

record public_user =
  pub_id :: int
  pub_username :: js_string
  pub_role :: js_string

text \<open>A response of \<open>authenticate\<close>: status, the properties of the JSON body (\<open>None\<close> for
  one the body does not have) and the headers in order.\<close>

record auth_response =
  auth_status :: nat
  auth_success :: bool
  auth_message :: "js_string option"
  auth_user :: "public_user option"
  auth_error :: "js_string option"
  auth_headers :: "(js_string \<times> js_string) list"

text \<open>The header \<open>NextResponse.json\<close> gives every response it builds.\<close>

definition json_headers :: "(js_string \<times> js_string) list" where
  "json_headers = [(js ''content-type'', js ''application/json'')]"

definition auth_cookie :: "js_string \<Rightarrow> js_string" where
  "auth_cookie token =
     js ''auth-token='' @ token @ js ''; Path=/; HttpOnly; SameSite=Lax; Max-Age='' @ js ''3600''"

definition setAuthCookie :: "auth_response \<Rightarrow> js_string \<Rightarrow> auth_response" where
  "setAuthCookie response token =
     response\<lparr>auth_headers := auth_headers response @ [(js ''Set-Cookie'', auth_cookie token)]\<rparr>"

definition unauthorized :: "js_string \<Rightarrow> auth_response" where
  "unauthorized msg =
     \<lparr>auth_status = 401, auth_success = False, auth_message = None, auth_user = None,
      auth_error = Some msg, auth_headers = json_headers\<rparr>"

definition authenticate :: "signer \<Rightarrow> int \<Rightarrow> js_string \<Rightarrow> js_string \<Rightarrow> auth_response" where
  "authenticate sign now username password =
     (case findUser username password of
        None \<Rightarrow> unauthorized (js ''Invalid username or password'')
      | Some user \<Rightarrow>
          (case generateToken sign now (user_id user) (user_username user) (user_role user) of
             Inl msg \<Rightarrow> unauthorized msg
           | Inr token \<Rightarrow>
               setAuthCookie
                 \<lparr>auth_status = 200, auth_success = True,
                  auth_message = Some (js ''Authentication successful''),
                  auth_user = Some \<lparr>pub_id = user_id user, pub_username = user_username user,
                                     pub_role = user_role user\<rparr>,
                  auth_error = None, auth_headers = json_headers\<rparr>
                 token))"

text \<open>A signer for concrete runs: it never throws, and its token spells out the claims'
  user name.\<close>

definition toy_sign :: signer where
  "toy_sign alg claims key = Some (alg @ js ''.'' @ claim_username claims)"

subsection \<open>Verification\<close>

text \<open>
  The library's \<open>jwtVerify\<close> is a parameter as well: from the token, the key, the
  expected issuer and audience and the clock reading (seconds since the epoch) to the
  payload, \<open>None\<close> when it throws.
\<close>

type_synonym verifier =
  "js_string \<Rightarrow> js_string \<Rightarrow> js_string \<Rightarrow> js_string \<Rightarrow> int \<Rightarrow> jwt_claims option"

text \<open>
  \<open>verifyToken\<close> at the clock reading \<open>now\<close>. \<open>Inl\<close> is the message of the \<open>Error\<close> it
  throws.
\<close>

definition verifyToken :: "verifier \<Rightarrow> int \<Rightarrow> js_string \<Rightarrow> js_string + jwt_claims" where
  "verifyToken verify now token =
     (case verify token secretKey JWT_issuer JWT_audience now of
        Some payload \<Rightarrow> Inr payload
      | None \<Rightarrow> Inl (js ''Invalid or expired authentication token''))"

text \<open>
  The library is not part of the repository. What the two parameters have to do with
  each other is its contract: a token signed with a key verifies under that key to the
  claims that were signed, provided their issuer and audience are the expected ones and
  the clock has not reached their expiry; otherwise verification throws.
\<close>

definition library_contract :: "signer \<Rightarrow> verifier \<Rightarrow> bool" where
  "library_contract sign verify \<longleftrightarrow>
     (\<forall>alg claims key token issuer audience now.
        sign alg claims key = Some token \<longrightarrow>
        verify token key issuer audience now =
          (if claim_iss claims = issuer \<and> claim_aud claims = audience \<and> now < claim_exp claims
           then Some claims else None))"

text \<open>
  A library for concrete runs. Its token spells out the key and the claims: a number
  in unary (that many units 1, then a unit 0, after a first unit for the sign of an
  integer), a string as its length followed by its units.
\<close>

definition encode_nat :: "nat \<Rightarrow> js_string" where
  "encode_nat n = replicate n 1 @ [0]"

definition decode_nat :: "js_string \<Rightarrow> nat \<times> js_string" where
  "decode_nat s = (length (takeWhile (\<lambda>u. u = 1) s), drop 1 (dropWhile (\<lambda>u. u = 1) s))"

definition encode_int :: "int \<Rightarrow> js_string" where
  "encode_int i = (if i < 0 then 1 else 0) # encode_nat (nat \<bar>i\<bar>)"

fun decode_int :: "js_string \<Rightarrow> int \<times> js_string" where
  "decode_int [] = (0, [])"
| "decode_int (u # s) =
     (let (n, rest) = decode_nat s in (if u = 1 then - int n else int n, rest))"

definition encode_string :: "js_string \<Rightarrow> js_string" where
  "encode_string s = encode_nat (length s) @ s"

definition decode_string :: "js_string \<Rightarrow> js_string \<times> js_string" where
  "decode_string t = (let (n, rest) = decode_nat t in (take n rest, drop n rest))"

definition encode_claims :: "jwt_claims \<Rightarrow> js_string" where
  "encode_claims c =
     encode_int (claim_userId c) @ encode_string (claim_username c) @
     encode_string (claim_role c) @ encode_int (claim_iat c) @ encode_string (claim_iss c) @
     encode_string (claim_aud c) @ encode_int (claim_exp c)"

definition decode_claims :: "js_string \<Rightarrow> jwt_claims" where
  "decode_claims t =
     (let (userId, t1) = decode_int t;
          (username, t2) = decode_string t1;
          (role, t3) = decode_string t2;
          (iat, t4) = decode_int t3;
          (iss, t5) = decode_string t4;
          (aud, t6) = decode_string t5;
          (exp, t7) = decode_int t6
      in \<lparr>claim_userId = userId, claim_username = username, claim_role = role,
          claim_iat = iat, claim_iss = iss, claim_aud = aud, claim_exp = exp\<rparr>)"

definition encode_token :: "js_string \<Rightarrow> jwt_claims \<Rightarrow> js_string" where
  "encode_token key claims = encode_string key @ encode_claims claims"

definition plain_sign :: signer where
  "plain_sign alg claims key = Some (encode_token key claims)"

definition plain_verify :: verifier where
  "plain_verify token key issuer audience now =
     (let (k, t) = decode_string token; claims = decode_claims t
      in if k = key \<and> claim_iss claims = issuer \<and> claim_aud claims = audience
            \<and> now < claim_exp claims
         then Some claims else None)"

section \<open>The optimistic page: \<open>src/app/optimistic/page.tsx\<close>\<close>

text \<open>The page's own module-level \<open>mockPosts\<close>, of the same shape as a stored post.\<close>

definition page_mockPosts :: "post list" where
  "page_mockPosts =
     [\<lparr>post_id = 1, post_title = js ''Introduction to React'',
        post_content = js ''Learn the basics of React components''\<rparr>,
      \<lparr>post_id = 2, post_title = js ''Next.js App Router'',
        post_content = js ''Understanding the new App Router paradigm''\<rparr>,
      \<lparr>post_id = 3, post_title = js ''State Management'',
        post_content = js ''Exploring different state management approaches''\<rparr>]"

text \<open>What \<open>addPost\<close> resolves to.\<close>

record add_result =
  add_success :: bool
  add_post :: "post option"
  add_error :: "js_string option"

text \<open>
  \<open>addPost\<close>, with the draw of \<open>Math.random()\<close> as a parameter (a number in \<open>[0, 1)\<close>) and
  the module's list passed in and returned.
\<close>

definition addPost :: "real \<Rightarrow> js_string \<times> js_string \<Rightarrow> post list \<Rightarrow> add_result \<times> post list" where
  "addPost random newPost posts =
     (if random < 0.2 then
        (\<lparr>add_success = False, add_post = None,
          add_error = Some (js ''Failed to save post. Please try again.'')\<rparr>, posts)
      else
        (let post = \<lparr>post_id = int (length posts) + 1, post_title = fst newPost,
                     post_content = snd newPost\<rparr>
         in (\<lparr>add_success = True, add_post = Some post, add_error = None\<rparr>, posts @ [post])))"

text \<open>The page's \<open>Post\<close> type: the id is a number or a string, and \<open>optimistic\<close> is
  optional.\<close>

datatype ui_id = NumberId int | StringId js_string

record ui_post =
  ui_id :: ui_id
  ui_title :: js_string
  ui_content :: js_string
  ui_optimistic :: "bool option"

text \<open>A stored post seen at the type \<open>Post\<close>.\<close>

definition as_Post :: "post \<Rightarrow> ui_post" where
  "as_Post p =
     \<lparr>ui_id = NumberId (post_id p), ui_title = post_title p, ui_content = post_content p,
      ui_optimistic = None\<rparr>"

text \<open>The action of an optimistic update.\<close>

record optimistic_action =
  act_title :: js_string
  act_content :: js_string
  act_tempId :: js_string

text \<open>The reducer the page passes to \<open>useOptimistic\<close>.\<close>

definition optimistic_reducer :: "ui_post list \<Rightarrow> optimistic_action \<Rightarrow> ui_post list" where
  "optimistic_reducer currentPosts newPost =
     currentPosts @
       [\<lparr>ui_id = StringId (act_tempId newPost), ui_title = act_title newPost,
         ui_content = act_content newPost, ui_optimistic = Some True\<rparr>]"

text \<open>
  Modelled from the spec: the hook \<open>useOptimistic\<close> of the UI library is not part of the
  repository; the glossary gives its contract, "a UI state change applied before server
  confirmation, reverted on failure". The state shown is the confirmed state with the
  reducer applied for each update still awaiting its confirmation, and the confirmed state
  alone once none is.
\<close>

definition useOptimistic :: "'s \<Rightarrow> ('s \<Rightarrow> 'a \<Rightarrow> 's) \<Rightarrow> 'a list \<Rightarrow> 's" where
  "useOptimistic confirmed reducer pending = foldl reducer confirmed pending"

text \<open>The white space \<open>trim()\<close> strips: the WhiteSpace and LineTerminator code units.\<close>

definition is_white_space :: "16 word \<Rightarrow> bool" where
  "is_white_space c =
     (c \<in> {0x0009, 0x000A, 0x000B, 0x000C, 0x000D, 0x0020, 0x00A0, 0x1680, 0x2028, 0x2029,
            0x202F, 0x205F, 0x3000, 0xFEFF}
      \<or> (0x2000 \<le> c \<and> c \<le> 0x200A))"

definition trim :: "js_string \<Rightarrow> js_string" where
  "trim s = rev (dropWhile is_white_space (rev (dropWhile is_white_space s)))"

text \<open>A whole number in decimal, as the template literal prints \<open>Date.now()\<close>.\<close>

fun decimal :: "nat \<Rightarrow> string" where
  "decimal n =
     (if n < 10 then [''0123456789'' ! n]
      else decimal (n div 10) @ [''0123456789'' ! (n mod 10)])"

text \<open>The component's state, with the module's list beside it.\<close>

record page_state =
  st_title :: js_string
  st_content :: js_string
  st_isSubmitting :: bool
  st_error :: "js_string option"
  st_mockPosts :: "post list"

text \<open>
  One run of \<open>handleSubmit\<close>, at the clock reading \<open>now\<close> (milliseconds) and with the
  draw \<open>random\<close>: the list shown while the call to \<open>addPost\<close> is awaited (\<open>None\<close> when the
  handler returns before any update), the state the run ends in, and the list shown then.
\<close>

record submit_run =
  shown_while_pending :: "ui_post list option"
  final_state :: page_state
  shown_finally :: "ui_post list"

definition handleSubmit :: "nat \<Rightarrow> real \<Rightarrow> page_state \<Rightarrow> submit_run" where
  "handleSubmit now random st =
     (let title = st_title st; content = st_content st
      in if trim title = [] \<or> trim content = [] then
           \<lparr>shown_while_pending = None, final_state = st,
            shown_finally = useOptimistic (map as_Post (st_mockPosts st)) optimistic_reducer []\<rparr>
         else
           (let st1 = st\<lparr>st_isSubmitting := True, st_error := None\<rparr>;
                tempId = js ''temp-'' @ js (decimal now);
                pending = [\<lparr>act_title = title, act_content = content, act_tempId = tempId\<rparr>];
                shown = useOptimistic (map as_Post (st_mockPosts st1)) optimistic_reducer pending;
                (result, posts') = addPost random (title, content) (st_mockPosts st1);
                st2 = st1\<lparr>st_mockPosts := posts'\<rparr>;
                st3 = (if \<not> add_success result then
                         st2\<lparr>st_error := Some (case add_error result of
                                                  Some e \<Rightarrow> if e = [] then js ''Failed to add post'' else e
                                                | None \<Rightarrow> js ''Failed to add post'')\<rparr>
                       else st2);
                st4 = st3\<lparr>st_title := [], st_content := []\<rparr>;
                st5 = st4\<lparr>st_isSubmitting := False\<rparr>
            in \<lparr>shown_while_pending = Some shown, final_state = st5,
                shown_finally =
                  useOptimistic (map as_Post (st_mockPosts st5)) optimistic_reducer []\<rparr>))"

section \<open>The cache demo: \<open>lib/cache/posts\<close>, \<open>src/app/cache/actions.ts\<close>,
  \<open>src/app/cache/page.tsx\<close>\<close>

text \<open>
  A function under \<open>'use cache'\<close>: the labels its body gives to \<open>cacheTag\<close>, in order, and
  the value it returns.
\<close>

record 'a cached_call =
  call_tags :: "js_string list"
  call_value :: 'a

definition getCachedPosts :: "post list cached_call" where
  "getCachedPosts =
     \<lparr>call_tags = [js ''posts''],
      call_value =
        [\<lparr>post_id = 1, post_title = js ''Post A'', post_content = js ''Content A''\<rparr>,
         \<lparr>post_id = 2, post_title = js ''Post B'', post_content = js ''Content B''\<rparr>,
         \<lparr>post_id = 3, post_title = js ''Post C'', post_content = js ''Content C''\<rparr>]\<rparr>"

text \<open>
  The server actions have no state of their own: what they do is call the framework's
  cache. A run of an action is the list of those calls, in order.
\<close>

datatype cache_call =
    UpdateTag js_string
  | RevalidateTag js_string js_string

definition revalidatePostsImmediately :: "cache_call list" where
  "revalidatePostsImmediately = [UpdateTag (js ''posts'')]"

text \<open>What \<open>formData.get(name)\<close> gives: \<open>null\<close> (here \<open>None\<close>), a string or a file.\<close>

datatype form_value = FormString js_string | FormFile

text \<open>Truthiness of such a value: a file is an object, a string is truthy unless empty.\<close>

fun form_truthy :: "form_value option \<Rightarrow> bool" where
  "form_truthy None = False"
| "form_truthy (Some (FormString s)) = (s \<noteq> [])"
| "form_truthy (Some FormFile) = True"

text \<open>The page's server action \<open>handleAddPost\<close>: the message of the \<open>Error\<close> it throws
  (\<open>None\<close> when it returns) and the calls it has made.\<close>

definition handleAddPost :: "(js_string \<rightharpoonup> form_value) \<Rightarrow> js_string option \<times> cache_call list" where
  "handleAddPost formData =
     (let title = formData (js ''title''); content = formData (js ''content'')
      in if \<not> form_truthy title \<or> \<not> form_truthy content then
           (Some (js ''Title and content are required''), [])
         else (None, [RevalidateTag (js ''posts'') (js ''max'')]))"

text \<open>
  Modelled from the spec: the framework's cache is not part of the repository; the
  glossary gives its contract, "a cache entry is associated with a label; invalidating
  the label invalidates all entries sharing it". An entry has a key, its labels, and is
  valid or not. \<open>updateTag(tag)\<close> and \<open>revalidateTag(tag, profile)\<close> both invalidate the
  label; they differ in when the framework refreshes the entries, which the glossary
  leaves out.
\<close>

record cache_entry =
  entry_key :: js_string
  entry_tags :: "js_string list"
  entry_valid :: bool

type_synonym cache = "cache_entry list"

definition invalidate :: "js_string \<Rightarrow> cache \<Rightarrow> cache" where
  "invalidate tag c =
     map (\<lambda>e. if tag \<in> set (entry_tags e) then e\<lparr>entry_valid := False\<rparr> else e) c"

fun invalidated_tag :: "cache_call \<Rightarrow> js_string" where
  "invalidated_tag (UpdateTag tag) = tag"
| "invalidated_tag (RevalidateTag tag profile) = tag"

definition perform :: "cache_call list \<Rightarrow> cache \<Rightarrow> cache" where
  "perform calls c = foldl (\<lambda>c' call. invalidate (invalidated_tag call) c') c calls"

text \<open>A cache for concrete runs: the entry of \<open>getCachedPosts\<close> and an entry under another
  label, both valid.\<close>

definition sample_cache :: cache where
  "sample_cache =
     [\<lparr>entry_key = js ''getCachedPosts'', entry_tags = call_tags getCachedPosts,
        entry_valid = True\<rparr>,
      \<lparr>entry_key = js ''getCachedUsers'', entry_tags = [js ''users''], entry_valid = True\<rparr>]"

section \<open>Facts about string literals\<close>

lemma js_Nil: "js [] = []"
  by (simp add: js_def)

lemma js_Cons: "js (c # cs) = word_of_nat (of_char c) # js cs"
  by (simp add: js_def)

lemma length_js: "length (js s) = length s"
  by (simp add: js_def)

lemma unit_of_char_inj:
  "(word_of_nat (of_char c) :: 16 word) = word_of_nat (of_char d) \<longleftrightarrow> c = d"
proof -
  have small: "(of_char e :: nat) < 2 ^ 16" for e
  proof -
    have "(of_char e :: nat) mod 256 < 256" by (rule mod_less_divisor) simp
    then have "(of_char e :: nat) < 256" unfolding of_char_mod_256 .
    then show ?thesis by (rule less_trans) simp
  qed
  have c: "(of_char c :: nat) < 2 ^ 16" and d: "(of_char d :: nat) < 2 ^ 16"
    by (rule small)+
  have "unat (word_of_nat (of_char c) :: 16 word) = of_char c"
    and "unat (word_of_nat (of_char d) :: 16 word) = of_char d"
    using c d by (simp_all add: unsigned_of_nat take_bit_nat_eq_self)
  then show ?thesis
    by (metis of_char_eq_iff)
qed

lemma js_eq_iff: "js s = js t \<longleftrightarrow> s = t"
proof (induction s arbitrary: t)
  case Nil
  then show ?case by (cases t) (simp_all add: js_Nil js_Cons)
next
  case (Cons c cs)
  then show ?case by (cases t) (simp_all add: js_Nil js_Cons unit_of_char_inj)
qed

lemma take_js: "take n (js s) = js (take n s)"
  by (simp add: js_def take_map)

lemma js_eq_Nil_iff: "js s = [] \<longleftrightarrow> s = []"
  by (simp add: js_def)

lemma startsWith_js: "startsWith (js s) (js p) \<longleftrightarrow> take (length p) s = p"
  by (simp add: startsWith_def length_js take_js js_eq_iff)

lemma protected_not_login: "isProtectedRoute p \<Longrightarrow> p \<noteq> js ''/auth/login''"
  by (auto simp: isProtectedRoute_def startsWith_js)

section \<open>Facts about the posts handlers\<close>

lemma findIndex_None_iff: "findIndex p xs = None \<longleftrightarrow> (\<forall>x\<in>set xs. \<not> p x)"
  by (induction xs) auto

lemma findIndex_Some:
  "findIndex p xs = Some i \<Longrightarrow> i < length xs \<and> p (xs ! i) \<and> (\<forall>j<i. \<not> p (xs ! j))"
proof (induction xs arbitrary: i)
  case Nil
  then show ?case by simp
next
  case (Cons x xs)
  show ?case
  proof (cases "p x")
    case True
    with Cons.prems show ?thesis by simp
  next
    case False
    with Cons.prems obtain k where k: "findIndex p xs = Some k" and i: "i = Suc k"
      by auto
    from Cons.IH [OF k] have "k < length xs" "p (xs ! k)" "\<forall>j<k. \<not> p (xs ! j)"
      by simp_all
    with False i show ?thesis
      by (auto simp: less_Suc_eq_0_disj)
  qed
qed

lemma string_min_max_Inr_iff:
  "string_min_max lo hi path v = Inr s \<longleftrightarrow> v = Some (JString s) \<and> lo \<le> length s \<and> length s \<le> hi"
  by (cases "(lo, hi, path, v)" rule: string_min_max.cases) auto

lemma string_min_max_issues:
  "string_min_max lo hi path v = Inl issues \<Longrightarrow> issues \<noteq> []"
  by (cases "(lo, hi, path, v)" rule: string_min_max.cases) (auto split: if_splits)

lemma postSchema_parse_Inr_iff:
  "postSchema_parse body = Inr (t, c) \<longleftrightarrow>
     (\<exists>kvs. body = JObject kvs
        \<and> map_of kvs (js ''title'') = Some (JString t) \<and> 3 \<le> length t \<and> length t \<le> 100
        \<and> map_of kvs (js ''content'') = Some (JString c) \<and> 10 \<le> length c \<and> length c \<le> 1000)"
proof (cases body)
  case (JObject kvs)
  show ?thesis
    unfolding JObject
    by (auto simp: Let_def string_min_max_Inr_iff split: sum.splits)
qed simp_all

lemma postSchema_parse_issues: "postSchema_parse body = Inl issues \<Longrightarrow> issues \<noteq> []"
proof (cases body)
  case (JObject kvs)
  assume "postSchema_parse body = Inl issues"
  then show ?thesis
    unfolding JObject
    by (auto simp: Let_def split: sum.splits dest: string_min_max_issues)
qed auto

lemma Number_of_digits_1: "Number_of_digits (js ''1'') = Some 1"
  by (simp add: Number_of_digits_def js_def digit_value_def)

lemma Number_of_digits_2: "Number_of_digits (js ''2'') = Some 2"
  by (simp add: Number_of_digits_def js_def digit_value_def)

lemma Number_of_digits_99: "Number_of_digits (js ''99'') = Some 99"
  by (simp add: Number_of_digits_def js_def digit_value_def)

lemma PUT_unchanged_on_error:
  "\<not> res_success (fst (PUT Number request posts)) \<Longrightarrow> snd (PUT Number request posts) = posts"
  by (auto simp: PUT_def Let_def error_response_def success_response_def
      split: option.splits sum.splits if_splits)

lemma DELETE_unchanged_on_error:
  "\<not> res_success (fst (DELETE Number request posts)) \<Longrightarrow> snd (DELETE Number request posts) = posts"
  by (auto simp: DELETE_def Let_def error_response_def success_response_def splice1_def
      split: option.splits sum.splits if_splits)

lemma request_id_req_of: "request_id (req_of [(js ''id'', v)] b) = Some v"
  by (simp add: request_id_def req_of_def searchParams_get_def)

lemma request_id_req_of_Nil: "request_id (req_of [] b) = None"
  by (simp add: request_id_def req_of_def searchParams_get_def)

lemma req_json_req_of: "req_json (req_of ps b) = b"
  by (simp add: req_of_def)

lemma good_body_parse: "postSchema_parse good_body = Inr (js ''Edited'', js ''Edited content'')"
  by (simp add: good_body_def js_eq_iff length_js)

lemma PUT_success:
  assumes "res_success (fst (PUT Number request posts))"
  obtains i body title content where
    "truthy (request_id request)"
    "req_json request = Some body" "postSchema_parse body = Inr (title, content)"
    "findIndex (\<lambda>post. Some (post_id post) = Number (string_of (request_id request))) posts = Some i"
    "PUT Number request posts =
       (success_response 200 ((posts ! i)\<lparr>post_title := title, post_content := content\<rparr>)
          (js ''Post updated successfully''),
        posts[i := (posts ! i)\<lparr>post_title := title, post_content := content\<rparr>])"
  using assms
  by (auto simp: PUT_def Let_def error_response_def split: option.splits sum.splits if_splits)

lemma DELETE_success:
  assumes "res_success (fst (DELETE Number request posts))"
  obtains i where
    "truthy (request_id request)"
    "findIndex (\<lambda>post. Some (post_id post) = Number (string_of (request_id request))) posts = Some i"
    "DELETE Number request posts =
       (success_response 200 (posts ! i) (js ''Post deleted successfully''),
        take i posts @ drop (Suc i) posts)"
  using assms
  by (auto simp: DELETE_def Let_def error_response_def splice1_def
      split: option.splits sum.splits if_splits)

lemma PUT_2_mockPosts:
  "PUT Number_of_digits (req_of [(js ''id'', js ''2'')] (Some good_body)) mockPosts =
     (success_response 200
        \<lparr>post_id = 2, post_title = js ''Edited'', post_content = js ''Edited content''\<rparr>
        (js ''Post updated successfully''),
      [mockPosts ! 0,
       \<lparr>post_id = 2, post_title = js ''Edited'', post_content = js ''Edited content''\<rparr>,
       mockPosts ! 2])"
  by (simp add: PUT_def Let_def request_id_req_of req_json_req_of good_body_parse
      Number_of_digits_2 js_eq_Nil_iff mockPosts_def)

lemma DELETE_1_mockPosts:
  "DELETE Number_of_digits (req_of [(js ''id'', js ''1'')] None) mockPosts =
     (success_response 200 (mockPosts ! 0) (js ''Post deleted successfully''),
      [mockPosts ! 1, mockPosts ! 2])"
  by (simp add: DELETE_def Let_def request_id_req_of Number_of_digits_1 js_eq_Nil_iff
      mockPosts_def splice1_def)

section \<open>Facts about authentication\<close>

lemma generateToken_Inr:
  "sign (js ''HS256'')
        \<lparr>claim_userId = userId, claim_username = username, claim_role = role,
         claim_iat = now, claim_iss = JWT_issuer, claim_aud = JWT_audience,
         claim_exp = now + JWT_expiresIn\<rparr> secretKey = Some token
   \<Longrightarrow> generateToken sign now userId username role = Inr token"
  by (simp add: generateToken_def)

lemma decode_nat_encode: "decode_nat (encode_nat n @ rest) = (n, rest)"
proof -
  have "takeWhile (\<lambda>u. u = 1) (replicate n (1::16 word) @ 0 # rest) = replicate n 1"
    by (induction n) simp_all
  moreover have "dropWhile (\<lambda>u. u = 1) (replicate n (1::16 word) @ 0 # rest) = 0 # rest"
    by (induction n) simp_all
  ultimately show ?thesis
    by (simp add: decode_nat_def encode_nat_def)
qed

lemma decode_int_encode: "decode_int (encode_int i @ rest) = (i, rest)"
  by (simp add: encode_int_def decode_nat_encode)

lemma decode_string_encode: "decode_string (encode_string s @ rest) = (s, rest)"
  by (simp add: encode_string_def decode_string_def decode_nat_encode)

lemma decode_claims_encode: "decode_claims (encode_claims c) = c"
proof -
  have last: "decode_int (encode_int i) = (i, [])" for i
    using decode_int_encode [of i "[]"] by simp
  show ?thesis
    unfolding encode_claims_def decode_claims_def
    by (simp add: decode_int_encode decode_string_encode last)
qed

lemma plain_verify_encode_token:
  "plain_verify (encode_token key claims) key issuer audience now =
     (if claim_iss claims = issuer \<and> claim_aud claims = audience \<and> now < claim_exp claims
      then Some claims else None)"
  by (simp add: plain_verify_def encode_token_def decode_string_encode decode_claims_encode)

lemma plain_library_contract: "library_contract plain_sign plain_verify"
  by (auto simp: library_contract_def plain_sign_def plain_verify_encode_token)

lemma generateToken_plain_sign:
  "generateToken plain_sign now userId username role =
     Inr (encode_token secretKey
            \<lparr>claim_userId = userId, claim_username = username, claim_role = role,
             claim_iat = now, claim_iss = JWT_issuer, claim_aud = JWT_audience,
             claim_exp = now + 3600\<rparr>)"
  by (simp add: generateToken_def plain_sign_def JWT_expiresIn_def)

lemma generateToken_signed:
  "generateToken sign now userId username role = Inr token \<Longrightarrow>
     sign (js ''HS256'')
        \<lparr>claim_userId = userId, claim_username = username, claim_role = role,
         claim_iat = now, claim_iss = JWT_issuer, claim_aud = JWT_audience,
         claim_exp = now + 3600\<rparr> secretKey = Some token"
  by (simp add: generateToken_def JWT_expiresIn_def split: option.splits)

lemma library_contractD:
  "library_contract sign verify \<Longrightarrow> sign alg claims key = Some token \<Longrightarrow>
     verify token key issuer audience now =
       (if claim_iss claims = issuer \<and> claim_aud claims = audience \<and> now < claim_exp claims
        then Some claims else None)"
  unfolding library_contract_def by blast

section \<open>Facts about the pages\<close>

lemma trim_eq_Nil_iff: "trim s = [] \<longleftrightarrow> (\<forall>c\<in>set s. is_white_space c)"
proof
  assume "trim s = []"
  then have "dropWhile is_white_space s = []"
    by (simp add: trim_def dropWhile_eq_Nil_conv) (metis dropWhile_eq_Nil_conv hd_dropWhile list.set_sel(1))
  then show "\<forall>c\<in>set s. is_white_space c"
    by (simp add: dropWhile_eq_Nil_conv)
next
  assume "\<forall>c\<in>set s. is_white_space c"
  then have "dropWhile is_white_space s = []"
    by (simp add: dropWhile_eq_Nil_conv)
  then show "trim s = []"
    by (simp add: trim_def del: dropWhile_eq_Nil_conv)
qed

lemma addPost_success_iff: "add_success (fst (addPost random newPost posts)) \<longleftrightarrow> \<not> random < 0.2"
  by (simp add: addPost_def Let_def)

lemma addPost_failure: "random < 0.2 \<Longrightarrow>
  addPost random newPost posts =
    (\<lparr>add_success = False, add_post = None,
      add_error = Some (js ''Failed to save post. Please try again.'')\<rparr>, posts)"
  by (simp add: addPost_def)

lemma useOptimistic_settled: "useOptimistic confirmed reducer [] = confirmed"
  by (simp add: useOptimistic_def)

lemma optimistic_entry_not_confirmed:
  "\<lparr>ui_id = StringId t, ui_title = a, ui_content = b, ui_optimistic = Some True\<rparr>
     \<notin> set (map as_Post posts)"
  by (auto simp: as_Post_def)

lemma invalidate_nth:
  "i < length c \<Longrightarrow>
     entry_key (invalidate tag c ! i) = entry_key (c ! i)
   \<and> entry_tags (invalidate tag c ! i) = entry_tags (c ! i)
   \<and> (entry_valid (invalidate tag c ! i) \<longleftrightarrow> entry_valid (c ! i) \<and> tag \<notin> set (entry_tags (c ! i)))"
  by (simp add: invalidate_def)

lemma length_invalidate: "length (invalidate tag c) = length c"
  by (simp add: invalidate_def)

lemma perform_single: "perform [call] c = invalidate (invalidated_tag call) c"
  by (simp add: perform_def)

lemma perform_Nil: "perform [] c = c"
  by (simp add: perform_def)

section \<open>Route protection\<close>

text \<open>
  C3, as the code has it. For every request whose pathname starts with \<open>/dashboard\<close> or
  \<open>/auth/protected\<close>: when it carries no \<open>auth-token\<close> cookie, or one whose value is the
  empty string, the middleware redirects to \<open>/auth/login\<close> on the request's origin, and
  the \<open>redirect\<close> search parameter of that URL is the requested pathname; when it carries
  an \<open>auth-token\<close> cookie with a non-empty value, the middleware lets it through.
\<close>

theorem middleware_gates_protected_routes:
  assumes "isProtectedRoute (nextUrl_pathname request)"
  shows "(cookies request (js ''auth-token'') = None \<or> cookies request (js ''auth-token'') = Some [] \<longrightarrow>
            middleware request =
              Redirect \<lparr>url_origin = url_origin (request_url request),
                        url_pathname = js ''/auth/login'',
                        url_searchParams = [(js ''redirect'', nextUrl_pathname request)]\<rparr>
            \<and> searchParams_get (js ''redirect'') [(js ''redirect'', nextUrl_pathname request)]
                = Some (nextUrl_pathname request))
       \<and> (\<forall>v. cookies request (js ''auth-token'') = Some v \<and> v \<noteq> [] \<longrightarrow>
            middleware request = Next)"
  using protected_not_login [OF assms] assms
  by (auto simp: middleware_def Let_def new_URL_def searchParams_get_def)

theorem middleware_gates_protected_routes_witness:
  "middleware \<lparr>nextUrl_pathname = js ''/dashboard/settings'',
               request_url = \<lparr>url_origin = js ''http://localhost:3000'',
                               url_pathname = js ''/dashboard/settings'', url_searchParams = []\<rparr>,
               cookies = Map.empty\<rparr>
     = Redirect \<lparr>url_origin = js ''http://localhost:3000'', url_pathname = js ''/auth/login'',
                 url_searchParams = [(js ''redirect'', js ''/dashboard/settings'')]\<rparr>
   \<and> middleware \<lparr>nextUrl_pathname = js ''/auth/protected'',
               request_url = \<lparr>url_origin = js ''http://localhost:3000'',
                               url_pathname = js ''/auth/protected'', url_searchParams = []\<rparr>,
               cookies = [js ''auth-token'' \<mapsto> js ''abc'']\<rparr> = Next"
  using middleware_gates_protected_routes
          [of "\<lparr>nextUrl_pathname = js ''/dashboard/settings'',
               request_url = \<lparr>url_origin = js ''http://localhost:3000'',
                               url_pathname = js ''/dashboard/settings'', url_searchParams = []\<rparr>,
               cookies = Map.empty\<rparr>"]
        middleware_gates_protected_routes
          [of "\<lparr>nextUrl_pathname = js ''/auth/protected'',
               request_url = \<lparr>url_origin = js ''http://localhost:3000'',
                               url_pathname = js ''/auth/protected'', url_searchParams = []\<rparr>,
               cookies = [js ''auth-token'' \<mapsto> js ''abc'']\<rparr>"]
  by (simp add: isProtectedRoute_def startsWith_js js_eq_Nil_iff)

text \<open>
  C3 as stated fails for a cookie that is present and empty: the test is \<open>!!authToken\<close>,
  and the empty string is falsy, so the request is redirected to the login page.
\<close>

theorem middleware_empty_cookie_counterexample:
  "isProtectedRoute (js ''/dashboard'')
   \<and> [js ''auth-token'' \<mapsto> []] (js ''auth-token'') = Some []
   \<and> middleware \<lparr>nextUrl_pathname = js ''/dashboard'',
               request_url = \<lparr>url_origin = js ''http://localhost:3000'',
                               url_pathname = js ''/dashboard'', url_searchParams = []\<rparr>,
               cookies = [js ''auth-token'' \<mapsto> []]\<rparr>
     = Redirect \<lparr>url_origin = js ''http://localhost:3000'', url_pathname = js ''/auth/login'',
                 url_searchParams = [(js ''redirect'', js ''/dashboard'')]\<rparr>"
  by (simp add: middleware_def isProtectedRoute_def startsWith_js new_URL_def js_eq_iff)

text \<open>
  C4. Two requests with the same pathname and URL that both carry a non-empty
  \<open>auth-token\<close> cookie get the same decision whatever the two values are, and on a
  protected route that decision is to let the request through: the middleware never
  looks into the token.
\<close>

theorem middleware_ignores_token_value:
  assumes "nextUrl_pathname r1 = nextUrl_pathname r2"
    and "request_url r1 = request_url r2"
    and "cookies r1 (js ''auth-token'') = Some v1" and "v1 \<noteq> []"
    and "cookies r2 (js ''auth-token'') = Some v2" and "v2 \<noteq> []"
  shows "middleware r1 = middleware r2
       \<and> (isProtectedRoute (nextUrl_pathname r1) \<longrightarrow> middleware r1 = Next \<and> middleware r2 = Next)"
  using assms protected_not_login [of "nextUrl_pathname r2"]
  by (auto simp: middleware_def Let_def)

theorem middleware_ignores_token_value_witness:
  "middleware \<lparr>nextUrl_pathname = js ''/dashboard'',
               request_url = \<lparr>url_origin = js ''http://localhost:3000'',
                               url_pathname = js ''/dashboard'', url_searchParams = []\<rparr>,
               cookies = [js ''auth-token'' \<mapsto> js ''eyJhbGciOiJIUzI1NiJ9.e30.signed'']\<rparr>
   = middleware \<lparr>nextUrl_pathname = js ''/dashboard'',
               request_url = \<lparr>url_origin = js ''http://localhost:3000'',
                               url_pathname = js ''/dashboard'', url_searchParams = []\<rparr>,
               cookies = [js ''auth-token'' \<mapsto> js ''x'']\<rparr>
   \<and> middleware \<lparr>nextUrl_pathname = js ''/dashboard'',
               request_url = \<lparr>url_origin = js ''http://localhost:3000'',
                               url_pathname = js ''/dashboard'', url_searchParams = []\<rparr>,
               cookies = [js ''auth-token'' \<mapsto> js ''x'']\<rparr> = Next"
  using middleware_ignores_token_value
          [of "\<lparr>nextUrl_pathname = js ''/dashboard'',
               request_url = \<lparr>url_origin = js ''http://localhost:3000'',
                               url_pathname = js ''/dashboard'', url_searchParams = []\<rparr>,
               cookies = [js ''auth-token'' \<mapsto> js ''eyJhbGciOiJIUzI1NiJ9.e30.signed'']\<rparr>"
              "\<lparr>nextUrl_pathname = js ''/dashboard'',
               request_url = \<lparr>url_origin = js ''http://localhost:3000'',
                               url_pathname = js ''/dashboard'', url_searchParams = []\<rparr>,
               cookies = [js ''auth-token'' \<mapsto> js ''x'']\<rparr>"
              "js ''eyJhbGciOiJIUzI1NiJ9.e30.signed''" "js ''x''"]
  by (simp add: isProtectedRoute_def startsWith_js js_eq_Nil_iff)

section \<open>The posts route handlers\<close>

text \<open>
  C5. \<open>POST /api/posts\<close>: when the body is an object whose \<open>title\<close> is a string of 3 to
  100 units and whose \<open>content\<close> is a string of 10 to 1000 units, the response has
  status 201 and \<open>success: true\<close>, and exactly one post, with that title and content, is
  appended to the stored list. When the schema rejects the body, the response has status
  400, the error \<open>Validation failed\<close> and one entry of \<open>details\<close> (its field and its
  message) for each issue, of which there is at least one, and the stored list is
  unchanged.
\<close>

theorem POST_created_or_validation_failed:
  "(req_json request = Some (JObject kvs)
      \<and> map_of kvs (js ''title'') = Some (JString title)
      \<and> 3 \<le> length title \<and> length title \<le> 100
      \<and> map_of kvs (js ''content'') = Some (JString content)
      \<and> 10 \<le> length content \<and> length content \<le> 1000
    \<longrightarrow> POST request posts =
          (\<lparr>res_status = 201, res_success = True,
            res_data = Some \<lparr>post_id = int (length posts) + 1, post_title = title,
                             post_content = content\<rparr>,
            res_message = Some (js ''Post created successfully''),
            res_error = None, res_details = None\<rparr>,
           posts @ [\<lparr>post_id = int (length posts) + 1, post_title = title,
                     post_content = content\<rparr>]))
   \<and> (req_json request = Some body \<and> postSchema_parse body = Inl issues
    \<longrightarrow> issues \<noteq> []
        \<and> POST request posts =
          (\<lparr>res_status = 400, res_success = False, res_data = None, res_message = None,
            res_error = Some (js ''Validation failed''),
            res_details = Some (FieldMessages
              (map (\<lambda>issue. (join (js ''.'') (issue_path issue), issue_message issue)) issues))\<rparr>,
           posts))"
proof (intro conjI impI)
  assume a: "req_json request = Some (JObject kvs)
      \<and> map_of kvs (js ''title'') = Some (JString title)
      \<and> 3 \<le> length title \<and> length title \<le> 100
      \<and> map_of kvs (js ''content'') = Some (JString content)
      \<and> 10 \<le> length content \<and> length content \<le> 1000"
  then have "postSchema_parse (JObject kvs) = Inr (title, content)"
    by (simp only: postSchema_parse_Inr_iff) blast
  with a show "POST request posts =
          (\<lparr>res_status = 201, res_success = True,
            res_data = Some \<lparr>post_id = int (length posts) + 1, post_title = title,
                             post_content = content\<rparr>,
            res_message = Some (js ''Post created successfully''),
            res_error = None, res_details = None\<rparr>,
           posts @ [\<lparr>post_id = int (length posts) + 1, post_title = title,
                     post_content = content\<rparr>])"
    by (simp add: POST_def success_response_def Let_def)
next
  assume b: "req_json request = Some body \<and> postSchema_parse body = Inl issues"
  then show "issues \<noteq> []"
    by (blast dest: postSchema_parse_issues)
next
  assume b: "req_json request = Some body \<and> postSchema_parse body = Inl issues"
  then show "POST request posts =
          (\<lparr>res_status = 400, res_success = False, res_data = None, res_message = None,
            res_error = Some (js ''Validation failed''),
            res_details = Some (FieldMessages
              (map (\<lambda>issue. (join (js ''.'') (issue_path issue), issue_message issue)) issues))\<rparr>,
           posts)"
    by (simp add: POST_def error_response_def)
qed

theorem POST_created_or_validation_failed_witness:
  "POST \<lparr>req_url = \<lparr>url_origin = js ''http://localhost:3000'', url_pathname = js ''/api/posts'',
                     url_searchParams = []\<rparr>,
         req_json = Some (JObject [(js ''title'', JString (js ''Hello'')),
                                   (js ''content'', JString (js ''Hello, world!''))])\<rparr>
        mockPosts
     = (\<lparr>res_status = 201, res_success = True,
         res_data = Some \<lparr>post_id = 4, post_title = js ''Hello'',
                          post_content = js ''Hello, world!''\<rparr>,
         res_message = Some (js ''Post created successfully''),
         res_error = None, res_details = None\<rparr>,
        mockPosts @ [\<lparr>post_id = 4, post_title = js ''Hello'', post_content = js ''Hello, world!''\<rparr>])
   \<and> POST \<lparr>req_url = \<lparr>url_origin = js ''http://localhost:3000'', url_pathname = js ''/api/posts'',
                     url_searchParams = []\<rparr>,
         req_json = Some (JObject [(js ''title'', JString (js ''Hi'')),
                                   (js ''content'', JNumber)])\<rparr>
        mockPosts
     = (\<lparr>res_status = 400, res_success = False, res_data = None, res_message = None,
         res_error = Some (js ''Validation failed''),
         res_details = Some (FieldMessages
            [(js ''title'', too_small 3), (js ''content'', invalid_type T_string T_number)])\<rparr>,
        mockPosts)"
  using POST_created_or_validation_failed
          [of "\<lparr>req_url = \<lparr>url_origin = js ''http://localhost:3000'', url_pathname = js ''/api/posts'',
                     url_searchParams = []\<rparr>,
         req_json = Some (JObject [(js ''title'', JString (js ''Hello'')),
                                   (js ''content'', JString (js ''Hello, world!''))])\<rparr>"
              "[(js ''title'', JString (js ''Hello'')), (js ''content'', JString (js ''Hello, world!''))]"
              "js ''Hello''" "js ''Hello, world!''" mockPosts]
        POST_created_or_validation_failed
          [of "\<lparr>req_url = \<lparr>url_origin = js ''http://localhost:3000'', url_pathname = js ''/api/posts'',
                     url_searchParams = []\<rparr>,
         req_json = Some (JObject [(js ''title'', JString (js ''Hi'')),
                                   (js ''content'', JNumber)])\<rparr>"
              _ _ _ mockPosts
              "JObject [(js ''title'', JString (js ''Hi'')), (js ''content'', JNumber)]"
              "[\<lparr>issue_path = [js ''title''], issue_message = too_small 3\<rparr>,
                \<lparr>issue_path = [js ''content''], issue_message = invalid_type T_string T_number\<rparr>]"]
  by (simp add: js_eq_iff length_js mockPosts_def)

text \<open>
  C6, as the code has it. \<open>PUT\<close> and \<open>DELETE\<close> on \<open>/api/posts\<close> answer 400 with the
  error \<open>Post ID is required\<close> when the \<open>id\<close> query parameter is absent or empty.
  \<open>DELETE\<close> answers 404 with the error \<open>Post not found\<close> when the parameter is non-empty
  and no stored post's id equals its conversion; \<open>PUT\<close> does so when, in addition, the
  body passes the schema, which it checks before it looks the post up. Whenever either
  handler answers without \<open>success: true\<close>, the stored list is unchanged.
\<close>

theorem PUT_DELETE_error_cases:
  "(request_id request = None \<or> request_id request = Some [] \<longrightarrow>
      PUT Number request posts = (error_response 400 (js ''Post ID is required'') None, posts)
      \<and> DELETE Number request posts = (error_response 400 (js ''Post ID is required'') None, posts))
   \<and> (request_id request = Some ident \<and> ident \<noteq> []
        \<and> (\<forall>p\<in>set posts. Number ident \<noteq> Some (post_id p)) \<longrightarrow>
      DELETE Number request posts = (error_response 404 (js ''Post not found'') None, posts)
      \<and> (\<forall>body v. req_json request = Some body \<and> postSchema_parse body = Inr v \<longrightarrow>
            PUT Number request posts = (error_response 404 (js ''Post not found'') None, posts)))
   \<and> (\<not> res_success (fst (PUT Number request posts)) \<longrightarrow>
        snd (PUT Number request posts) = posts)
   \<and> (\<not> res_success (fst (DELETE Number request posts)) \<longrightarrow>
        snd (DELETE Number request posts) = posts)"
proof (intro conjI impI allI)
  assume "request_id request = None \<or> request_id request = Some []"
  then have "\<not> truthy (request_id request)" by auto
  then show "PUT Number request posts = (error_response 400 (js ''Post ID is required'') None, posts)"
    and "DELETE Number request posts = (error_response 400 (js ''Post ID is required'') None, posts)"
    by (simp_all add: PUT_def DELETE_def)
next
  assume a: "request_id request = Some ident \<and> ident \<noteq> []
        \<and> (\<forall>p\<in>set posts. Number ident \<noteq> Some (post_id p))"
  then have none: "findIndex (\<lambda>post. Some (post_id post) = Number ident) posts = None"
    by (simp only: findIndex_None_iff) metis
  with a show "DELETE Number request posts = (error_response 404 (js ''Post not found'') None, posts)"
    by (simp add: DELETE_def)
  fix body v
  assume "req_json request = Some body \<and> postSchema_parse body = Inr v"
  with a none show "PUT Number request posts = (error_response 404 (js ''Post not found'') None, posts)"
    by (simp add: PUT_def)
next
  assume "\<not> res_success (fst (PUT Number request posts))"
  then show "snd (PUT Number request posts) = posts" by (rule PUT_unchanged_on_error)
next
  assume "\<not> res_success (fst (DELETE Number request posts))"
  then show "snd (DELETE Number request posts) = posts" by (rule DELETE_unchanged_on_error)
qed

theorem PUT_DELETE_error_cases_witness:
  "PUT Number_of_digits (req_of [] (Some good_body)) mockPosts
     = (error_response 400 (js ''Post ID is required'') None, mockPosts)
   \<and> DELETE Number_of_digits (req_of [] None) mockPosts
     = (error_response 400 (js ''Post ID is required'') None, mockPosts)
   \<and> PUT Number_of_digits (req_of [(js ''id'', js ''99'')] (Some good_body)) mockPosts
     = (error_response 404 (js ''Post not found'') None, mockPosts)
   \<and> DELETE Number_of_digits (req_of [(js ''id'', js ''99'')] None) mockPosts
     = (error_response 404 (js ''Post not found'') None, mockPosts)
   \<and> \<not> res_success (fst (PUT Number_of_digits (req_of [(js ''id'', js ''99'')] (Some good_body)) mockPosts))
   \<and> snd (PUT Number_of_digits (req_of [(js ''id'', js ''99'')] (Some good_body)) mockPosts) = mockPosts
   \<and> \<not> res_success (fst (DELETE Number_of_digits (req_of [(js ''id'', js ''99'')] None) mockPosts))
   \<and> snd (DELETE Number_of_digits (req_of [(js ''id'', js ''99'')] None) mockPosts) = mockPosts"
proof -
  have notfound: "\<forall>p\<in>set mockPosts. Number_of_digits (js ''99'') \<noteq> Some (post_id p)"
    by (simp add: Number_of_digits_99 mockPosts_def)
  have nonempty: "js ''99'' \<noteq> []"
    by (simp add: js_eq_Nil_iff)
  note a = PUT_DELETE_error_cases
      [where request = "req_of [] (Some good_body)" and Number = Number_of_digits
        and posts = mockPosts]
  note b = PUT_DELETE_error_cases
      [where request = "req_of [] None" and Number = Number_of_digits and posts = mockPosts]
  note c = PUT_DELETE_error_cases
      [where request = "req_of [(js ''id'', js ''99'')] (Some good_body)"
        and ident = "js ''99''" and Number = Number_of_digits and posts = mockPosts]
  note d = PUT_DELETE_error_cases
      [where request = "req_of [(js ''id'', js ''99'')] None"
        and ident = "js ''99''" and Number = Number_of_digits and posts = mockPosts]
  from a have 1: "PUT Number_of_digits (req_of [] (Some good_body)) mockPosts
     = (error_response 400 (js ''Post ID is required'') None, mockPosts)"
    by (simp add: request_id_req_of_Nil)
  from b have 2: "DELETE Number_of_digits (req_of [] None) mockPosts
     = (error_response 400 (js ''Post ID is required'') None, mockPosts)"
    by (simp add: request_id_req_of_Nil)
  from c notfound nonempty have 3:
    "PUT Number_of_digits (req_of [(js ''id'', js ''99'')] (Some good_body)) mockPosts
     = (error_response 404 (js ''Post not found'') None, mockPosts)"
    by (simp add: request_id_req_of req_json_req_of good_body_parse)
  from d notfound nonempty have 4:
    "DELETE Number_of_digits (req_of [(js ''id'', js ''99'')] None) mockPosts
     = (error_response 404 (js ''Post not found'') None, mockPosts)"
    by (simp add: request_id_req_of)
  from 1 2 3 4 show ?thesis
    by (simp add: error_response_def)
qed

text \<open>
  C6 as stated fails for \<open>PUT\<close>: with \<open>id=99\<close>, which no stored post has, and the body
  \<open>{}\<close>, the answer is 400 \<open>Validation failed\<close>, not 404 \<open>Post not found\<close>, since the
  body is validated before the post is looked up.
\<close>

theorem PUT_validates_before_lookup_counterexample:
  "request_id (req_of [(js ''id'', js ''99'')] (Some (JObject []))) = Some (js ''99'')
   \<and> Number_of_digits (js ''99'') = Some 99
   \<and> map post_id mockPosts = [1, 2, 3]
   \<and> PUT Number_of_digits (req_of [(js ''id'', js ''99'')] (Some (JObject []))) mockPosts
     = (error_response 400 (js ''Validation failed'')
          (Some (Issues [\<lparr>issue_path = [js ''title''],
                           issue_message = invalid_type T_string T_undefined\<rparr>,
                         \<lparr>issue_path = [js ''content''],
                           issue_message = invalid_type T_string T_undefined\<rparr>])),
        mockPosts)"
  by (simp add: request_id_req_of req_json_req_of Number_of_digits_99 mockPosts_def PUT_def
      js_eq_Nil_iff)

text \<open>
  C7. A successful \<open>PUT\<close> replaces the title and content of the first stored post whose
  id equals the converted parameter by those of the validated body; that post keeps its
  id, the list keeps its length, and every other post is unchanged. A successful
  \<open>DELETE\<close> removes exactly the first stored post whose id equals the converted
  parameter and answers with it; the posts before and after it stay, in their order.
\<close>

theorem PUT_DELETE_success_frame:
  "(res_success (fst (PUT Number request posts)) \<longrightarrow>
      (\<exists>i body title content.
          i < length posts
        \<and> Number (string_of (request_id request)) = Some (post_id (posts ! i))
        \<and> (\<forall>j<i. Number (string_of (request_id request)) \<noteq> Some (post_id (posts ! j)))
        \<and> req_json request = Some body \<and> postSchema_parse body = Inr (title, content)
        \<and> snd (PUT Number request posts) =
            posts[i := \<lparr>post_id = post_id (posts ! i), post_title = title,
                         post_content = content\<rparr>]
        \<and> length (snd (PUT Number request posts)) = length posts
        \<and> (\<forall>j<length posts. j \<noteq> i \<longrightarrow> snd (PUT Number request posts) ! j = posts ! j)))
   \<and> (res_success (fst (DELETE Number request posts)) \<longrightarrow>
      (\<exists>i. i < length posts
        \<and> Number (string_of (request_id request)) = Some (post_id (posts ! i))
        \<and> (\<forall>j<i. Number (string_of (request_id request)) \<noteq> Some (post_id (posts ! j)))
        \<and> res_data (fst (DELETE Number request posts)) = Some (posts ! i)
        \<and> snd (DELETE Number request posts) = take i posts @ drop (Suc i) posts))"
proof (intro conjI impI)
  assume "res_success (fst (PUT Number request posts))"
  then obtain i body title content where
    body: "req_json request = Some body" "postSchema_parse body = Inr (title, content)" and
    idx: "findIndex (\<lambda>post. Some (post_id post) = Number (string_of (request_id request))) posts = Some i" and
    res: "PUT Number request posts =
       (success_response 200 ((posts ! i)\<lparr>post_title := title, post_content := content\<rparr>)
          (js ''Post updated successfully''),
        posts[i := (posts ! i)\<lparr>post_title := title, post_content := content\<rparr>])"
    by (rule PUT_success)
  from findIndex_Some [OF idx] have
    i: "i < length posts" and
    hit: "Number (string_of (request_id request)) = Some (post_id (posts ! i))" and
    first: "\<forall>j<i. Number (string_of (request_id request)) \<noteq> Some (post_id (posts ! j))"
    by (simp_all, metis)
  have upd: "(posts ! i)\<lparr>post_title := title, post_content := content\<rparr> =
      \<lparr>post_id = post_id (posts ! i), post_title = title, post_content = content\<rparr>"
    by (cases "posts ! i") simp
  have snd_eq: "snd (PUT Number request posts) =
      posts[i := \<lparr>post_id = post_id (posts ! i), post_title = title, post_content = content\<rparr>]"
    using res upd by simp
  have len: "length (snd (PUT Number request posts)) = length posts"
    using snd_eq by simp
  have others: "\<forall>j<length posts. j \<noteq> i \<longrightarrow> snd (PUT Number request posts) ! j = posts ! j"
    using snd_eq by simp
  from i hit first body snd_eq len others
  show "\<exists>i body title content.
          i < length posts
        \<and> Number (string_of (request_id request)) = Some (post_id (posts ! i))
        \<and> (\<forall>j<i. Number (string_of (request_id request)) \<noteq> Some (post_id (posts ! j)))
        \<and> req_json request = Some body \<and> postSchema_parse body = Inr (title, content)
        \<and> snd (PUT Number request posts) =
            posts[i := \<lparr>post_id = post_id (posts ! i), post_title = title,
                         post_content = content\<rparr>]
        \<and> length (snd (PUT Number request posts)) = length posts
        \<and> (\<forall>j<length posts. j \<noteq> i \<longrightarrow> snd (PUT Number request posts) ! j = posts ! j)"
    by blast
next
  assume "res_success (fst (DELETE Number request posts))"
  then obtain i where
    idx: "findIndex (\<lambda>post. Some (post_id post) = Number (string_of (request_id request))) posts = Some i" and
    res: "DELETE Number request posts =
       (success_response 200 (posts ! i) (js ''Post deleted successfully''),
        take i posts @ drop (Suc i) posts)"
    by (rule DELETE_success)
  from findIndex_Some [OF idx] have
    i: "i < length posts" and
    hit: "Number (string_of (request_id request)) = Some (post_id (posts ! i))" and
    first: "\<forall>j<i. Number (string_of (request_id request)) \<noteq> Some (post_id (posts ! j))"
    by (simp_all, metis)
  from res have "res_data (fst (DELETE Number request posts)) = Some (posts ! i)"
    and "snd (DELETE Number request posts) = take i posts @ drop (Suc i) posts"
    by (simp_all add: success_response_def)
  with i hit first
  show "\<exists>i. i < length posts
        \<and> Number (string_of (request_id request)) = Some (post_id (posts ! i))
        \<and> (\<forall>j<i. Number (string_of (request_id request)) \<noteq> Some (post_id (posts ! j)))
        \<and> res_data (fst (DELETE Number request posts)) = Some (posts ! i)
        \<and> snd (DELETE Number request posts) = take i posts @ drop (Suc i) posts"
    by blast
qed

theorem PUT_DELETE_success_frame_witness:
  "res_success (fst (PUT Number_of_digits (req_of [(js ''id'', js ''2'')] (Some good_body)) mockPosts))
   \<and> (\<exists>i<length mockPosts.
         Number_of_digits (js ''2'') = Some (post_id (mockPosts ! i))
       \<and> snd (PUT Number_of_digits (req_of [(js ''id'', js ''2'')] (Some good_body)) mockPosts) =
           mockPosts[i := \<lparr>post_id = post_id (mockPosts ! i), post_title = js ''Edited'',
                             post_content = js ''Edited content''\<rparr>])
   \<and> res_success (fst (DELETE Number_of_digits (req_of [(js ''id'', js ''1'')] None) mockPosts))
   \<and> (\<exists>i<length mockPosts.
         Number_of_digits (js ''1'') = Some (post_id (mockPosts ! i))
       \<and> snd (DELETE Number_of_digits (req_of [(js ''id'', js ''1'')] None) mockPosts) =
           take i mockPosts @ drop (Suc i) mockPosts)"
proof -
  have p: "res_success (fst (PUT Number_of_digits (req_of [(js ''id'', js ''2'')] (Some good_body)) mockPosts))"
    by (simp add: PUT_2_mockPosts success_response_def)
  have d: "res_success (fst (DELETE Number_of_digits (req_of [(js ''id'', js ''1'')] None) mockPosts))"
    by (simp add: DELETE_1_mockPosts success_response_def)
  note frame = PUT_DELETE_success_frame [where Number = Number_of_digits and posts = mockPosts]
  from p frame [where request = "req_of [(js ''id'', js ''2'')] (Some good_body)"]
  have 1: "\<exists>i<length mockPosts.
         Number_of_digits (js ''2'') = Some (post_id (mockPosts ! i))
       \<and> snd (PUT Number_of_digits (req_of [(js ''id'', js ''2'')] (Some good_body)) mockPosts) =
           mockPosts[i := \<lparr>post_id = post_id (mockPosts ! i), post_title = js ''Edited'',
                             post_content = js ''Edited content''\<rparr>]"
    by (auto simp: request_id_req_of req_json_req_of good_body_parse)
  from d frame [where request = "req_of [(js ''id'', js ''1'')] None"]
  have 2: "\<exists>i<length mockPosts.
         Number_of_digits (js ''1'') = Some (post_id (mockPosts ! i))
       \<and> snd (DELETE Number_of_digits (req_of [(js ''id'', js ''1'')] None) mockPosts) =
           take i mockPosts @ drop (Suc i) mockPosts"
    by (auto simp: request_id_req_of)
  from p 1 d 2 show ?thesis by blast
qed

text \<open>
  C10. A successful \<open>POST\<close> gives the new post the id \<open>length + 1\<close> of the stored list,
  whatever the ids in the list are. Hence, from the initial list, deleting the first
  post (not the last one) and then posting leaves the ids 2, 3, 3: two stored posts
  share an id. (\<open>Number('1')\<close> is 1 for the built-in conversion.)
\<close>

theorem POST_id_from_length:
  "(req_json request = Some body \<and> postSchema_parse body = Inr (title, content) \<longrightarrow>
      POST request posts =
        (success_response 201
           \<lparr>post_id = int (length posts) + 1, post_title = title, post_content = content\<rparr>
           (js ''Post created successfully''),
         posts @ [\<lparr>post_id = int (length posts) + 1, post_title = title,
                   post_content = content\<rparr>]))
   \<and> (Number (js ''1'') = Some 1 \<longrightarrow>
        (\<exists>deleteRequest postRequest deleted afterDelete created afterPost.
            DELETE Number deleteRequest mockPosts = (deleted, afterDelete)
          \<and> res_success deleted
          \<and> res_data deleted = Some (mockPosts ! 0) \<and> 0 < length mockPosts - 1
          \<and> POST postRequest afterDelete = (created, afterPost)
          \<and> res_status created = 201
          \<and> map post_id afterPost = [2, 3, 3]
          \<and> \<not> distinct (map post_id afterPost)))"
proof (intro conjI impI)
  assume "req_json request = Some body \<and> postSchema_parse body = Inr (title, content)"
  then show "POST request posts =
        (success_response 201
           \<lparr>post_id = int (length posts) + 1, post_title = title, post_content = content\<rparr>
           (js ''Post created successfully''),
         posts @ [\<lparr>post_id = int (length posts) + 1, post_title = title,
                   post_content = content\<rparr>])"
    by (simp add: POST_def Let_def)
next
  assume one: "Number (js ''1'') = Some 1"
  have del: "DELETE Number (req_of [(js ''id'', js ''1'')] None) mockPosts =
     (success_response 200 (mockPosts ! 0) (js ''Post deleted successfully''),
      [mockPosts ! 1, mockPosts ! 2])"
    using one
    by (simp add: DELETE_def Let_def request_id_req_of js_eq_Nil_iff mockPosts_def splice1_def)
  have post: "POST (req_of [] (Some good_body)) [mockPosts ! 1, mockPosts ! 2] =
     (success_response 201
        \<lparr>post_id = 3, post_title = js ''Edited'', post_content = js ''Edited content''\<rparr>
        (js ''Post created successfully''),
      [mockPosts ! 1, mockPosts ! 2,
       \<lparr>post_id = 3, post_title = js ''Edited'', post_content = js ''Edited content''\<rparr>])"
    by (simp add: POST_def Let_def req_json_req_of good_body_parse)
  have ids: "map post_id [mockPosts ! 1, mockPosts ! 2,
       \<lparr>post_id = 3, post_title = js ''Edited'', post_content = js ''Edited content''\<rparr>] = [2, 3, 3]"
    by (simp add: mockPosts_def)
  have len: "0 < length mockPosts - 1"
    by (simp add: mockPosts_def)
  show "\<exists>deleteRequest postRequest deleted afterDelete created afterPost.
            DELETE Number deleteRequest mockPosts = (deleted, afterDelete)
          \<and> res_success deleted
          \<and> res_data deleted = Some (mockPosts ! 0) \<and> 0 < length mockPosts - 1
          \<and> POST postRequest afterDelete = (created, afterPost)
          \<and> res_status created = 201
          \<and> map post_id afterPost = [2, 3, 3]
          \<and> \<not> distinct (map post_id afterPost)"
    apply (rule exI [of _ "req_of [(js ''id'', js ''1'')] None"])
    apply (rule exI [of _ "req_of [] (Some good_body)"])
    apply (intro exI conjI)
           apply (rule del)
          apply (simp add: success_response_def)
         apply (simp add: success_response_def)
        apply (rule len)
       apply (rule post)
      apply (simp add: success_response_def)
     apply (rule ids)
    apply (subst ids)
    apply simp
    done
qed

theorem POST_id_from_length_witness:
  "POST (req_of [] (Some good_body)) [mockPosts ! 1, mockPosts ! 2] =
     (success_response 201
        \<lparr>post_id = 3, post_title = js ''Edited'', post_content = js ''Edited content''\<rparr>
        (js ''Post created successfully''),
      [mockPosts ! 1, mockPosts ! 2,
       \<lparr>post_id = 3, post_title = js ''Edited'', post_content = js ''Edited content''\<rparr>])
   \<and> Number_of_digits (js ''1'') = Some 1
   \<and> (\<exists>deleteRequest postRequest deleted afterDelete created afterPost.
            DELETE Number_of_digits deleteRequest mockPosts = (deleted, afterDelete)
          \<and> res_success deleted
          \<and> res_data deleted = Some (mockPosts ! 0) \<and> 0 < length mockPosts - 1
          \<and> POST postRequest afterDelete = (created, afterPost)
          \<and> res_status created = 201
          \<and> map post_id afterPost = [2, 3, 3]
          \<and> \<not> distinct (map post_id afterPost))"
  using POST_id_from_length
          [where request = "req_of [] (Some good_body)" and body = good_body
             and title = "js ''Edited''" and content = "js ''Edited content''"
             and posts = "[mockPosts ! 1, mockPosts ! 2]" and Number = Number_of_digits]
  by (simp add: req_json_req_of good_body_parse Number_of_digits_1)

section \<open>Authentication\<close>

text \<open>
  C2. Provided the signing library does not throw: for every username and password,
  \<open>authenticate\<close> answers with \<open>success: true\<close> if and only if the pair is the username
  and password of one of the two mock users (\<open>demo\<close>/\<open>password123\<close>,
  \<open>admin\<close>/\<open>admin123\<close>). In that case the response has status 200, carries the id,
  username and role of a matching user, and has a \<open>Set-Cookie\<close> header that stores the
  token generated for that user as \<open>auth-token\<close>. Otherwise the response has status 401,
  \<open>success: false\<close>, and no \<open>Set-Cookie\<close> header.
\<close>

theorem authenticate_mock_credentials:
  assumes signs: "\<forall>claims. sign (js ''HS256'') claims secretKey \<noteq> None"
  shows "((\<exists>user \<in> set mockUsers. user_username user = username \<and> user_password user = password) \<longleftrightarrow>
            username = js ''demo'' \<and> password = js ''password123''
            \<or> username = js ''admin'' \<and> password = js ''admin123'')
       \<and> (auth_success (authenticate sign now username password) \<longleftrightarrow>
            (\<exists>user \<in> set mockUsers. user_username user = username \<and> user_password user = password))
       \<and> ((\<exists>user \<in> set mockUsers. user_username user = username \<and> user_password user = password) \<longrightarrow>
            (\<exists>user token. user \<in> set mockUsers
               \<and> user_username user = username \<and> user_password user = password
               \<and> generateToken sign now (user_id user) (user_username user) (user_role user) = Inr token
               \<and> authenticate sign now username password =
                   \<lparr>auth_status = 200, auth_success = True,
                    auth_message = Some (js ''Authentication successful''),
                    auth_user = Some \<lparr>pub_id = user_id user, pub_username = user_username user,
                                       pub_role = user_role user\<rparr>,
                    auth_error = None,
                    auth_headers = json_headers @
                      [(js ''Set-Cookie'',
                        js ''auth-token='' @ token @
                        js ''; Path=/; HttpOnly; SameSite=Lax; Max-Age=3600'')]\<rparr>))
       \<and> (\<not> (\<exists>user \<in> set mockUsers. user_username user = username \<and> user_password user = password) \<longrightarrow>
            authenticate sign now username password =
              \<lparr>auth_status = 401, auth_success = False, auth_message = None, auth_user = None,
               auth_error = Some (js ''Invalid username or password''),
               auth_headers = json_headers\<rparr>
            \<and> js ''Set-Cookie'' \<notin> fst ` set (auth_headers (authenticate sign now username password)))"
proof -
  let ?matches = "\<exists>user \<in> set mockUsers. user_username user = username \<and> user_password user = password"
  have cookie: "auth_cookie token =
      js ''auth-token='' @ token @ js ''; Path=/; HttpOnly; SameSite=Lax; Max-Age=3600''" for token
    by (simp add: auth_cookie_def js_def)
  have miss: "authenticate sign now username password =
              \<lparr>auth_status = 401, auth_success = False, auth_message = None, auth_user = None,
               auth_error = Some (js ''Invalid username or password''),
               auth_headers = json_headers\<rparr>
            \<and> js ''Set-Cookie'' \<notin> fst ` set (auth_headers (authenticate sign now username password))"
    if "\<not> ?matches"
  proof -
    from that have "findUser username password = None"
      by (simp add: findUser_def find_None_iff)
    then show ?thesis
      by (simp add: authenticate_def unauthorized_def json_headers_def js_eq_iff)
  qed
  have hit: "\<exists>user token. user \<in> set mockUsers
               \<and> user_username user = username \<and> user_password user = password
               \<and> generateToken sign now (user_id user) (user_username user) (user_role user) = Inr token
               \<and> authenticate sign now username password =
                   \<lparr>auth_status = 200, auth_success = True,
                    auth_message = Some (js ''Authentication successful''),
                    auth_user = Some \<lparr>pub_id = user_id user, pub_username = user_username user,
                                       pub_role = user_role user\<rparr>,
                    auth_error = None,
                    auth_headers = json_headers @
                      [(js ''Set-Cookie'',
                        js ''auth-token='' @ token @
                        js ''; Path=/; HttpOnly; SameSite=Lax; Max-Age=3600'')]\<rparr>"
    if "?matches"
  proof -
    from that have "findUser username password \<noteq> None"
      by (simp add: findUser_def find_None_iff) blast
    then obtain user where user: "findUser username password = Some user"
      by blast
    then have found: "user \<in> set mockUsers" "user_username user = username"
      "user_password user = password"
      by (auto simp: findUser_def find_Some_iff)
    from signs obtain token where
      "sign (js ''HS256'')
        \<lparr>claim_userId = user_id user, claim_username = user_username user,
         claim_role = user_role user, claim_iat = now, claim_iss = JWT_issuer,
         claim_aud = JWT_audience, claim_exp = now + JWT_expiresIn\<rparr> secretKey = Some token"
      by (meson option.exhaust)
    then have token: "generateToken sign now (user_id user) (user_username user) (user_role user) = Inr token"
      by (rule generateToken_Inr)
    with user have "authenticate sign now username password =
                   \<lparr>auth_status = 200, auth_success = True,
                    auth_message = Some (js ''Authentication successful''),
                    auth_user = Some \<lparr>pub_id = user_id user, pub_username = user_username user,
                                       pub_role = user_role user\<rparr>,
                    auth_error = None,
                    auth_headers = json_headers @
                      [(js ''Set-Cookie'',
                        js ''auth-token='' @ token @
                        js ''; Path=/; HttpOnly; SameSite=Lax; Max-Age=3600'')]\<rparr>"
      by (simp add: authenticate_def setAuthCookie_def cookie)
    with found token show ?thesis by blast
  qed
  have iff: "auth_success (authenticate sign now username password) \<longleftrightarrow> ?matches"
  proof (cases "?matches")
    case True
    from hit [OF True] show ?thesis using True by auto
  next
    case False
    from miss [OF False] show ?thesis using False by simp
  qed
  have pairs: "?matches \<longleftrightarrow>
            username = js ''demo'' \<and> password = js ''password123''
            \<or> username = js ''admin'' \<and> password = js ''admin123''"
    by (auto simp: mockUsers_def)
  from pairs iff hit miss show ?thesis by blast
qed

theorem authenticate_mock_credentials_witness:
  "authenticate toy_sign 1700000000 (js ''demo'') (js ''password123'') =
     \<lparr>auth_status = 200, auth_success = True,
      auth_message = Some (js ''Authentication successful''),
      auth_user = Some \<lparr>pub_id = 1, pub_username = js ''demo'', pub_role = js ''user''\<rparr>,
      auth_error = None,
      auth_headers = json_headers @
        [(js ''Set-Cookie'',
          js ''auth-token=HS256.demo; Path=/; HttpOnly; SameSite=Lax; Max-Age=3600'')]\<rparr>
   \<and> authenticate toy_sign 1700000000 (js ''demo'') (js ''admin123'') =
     \<lparr>auth_status = 401, auth_success = False, auth_message = None, auth_user = None,
      auth_error = Some (js ''Invalid username or password''),
      auth_headers = json_headers\<rparr>"
proof -
  have signs: "\<forall>claims. toy_sign (js ''HS256'') claims secretKey \<noteq> None"
    by (simp add: toy_sign_def)
  note inst = authenticate_mock_credentials
      [where sign = toy_sign and now = 1700000000, OF signs]
  have demo: "\<exists>user \<in> set mockUsers.
      user_username user = js ''demo'' \<and> user_password user = js ''password123''"
    by (simp add: mockUsers_def)
  have other: "\<not> (\<exists>user \<in> set mockUsers.
      user_username user = js ''demo'' \<and> user_password user = js ''admin123'')"
    by (simp add: mockUsers_def js_eq_iff)
  from inst [of "js ''demo''" "js ''password123''"] demo
  obtain user token where user: "user \<in> set mockUsers" "user_username user = js ''demo''"
    and token: "generateToken toy_sign 1700000000 (user_id user) (user_username user) (user_role user) = Inr token"
    and res: "authenticate toy_sign 1700000000 (js ''demo'') (js ''password123'') =
                   \<lparr>auth_status = 200, auth_success = True,
                    auth_message = Some (js ''Authentication successful''),
                    auth_user = Some \<lparr>pub_id = user_id user, pub_username = user_username user,
                                       pub_role = user_role user\<rparr>,
                    auth_error = None,
                    auth_headers = json_headers @
                      [(js ''Set-Cookie'',
                        js ''auth-token='' @ token @
                        js ''; Path=/; HttpOnly; SameSite=Lax; Max-Age=3600'')]\<rparr>"
    by blast
  from user have u: "user = mockUsers ! 0"
    by (auto simp: mockUsers_def js_eq_iff)
  from token u have t: "token = js ''HS256.demo''"
    by (simp add: generateToken_def toy_sign_def mockUsers_def js_def)
  have 1: "authenticate toy_sign 1700000000 (js ''demo'') (js ''password123'') =
     \<lparr>auth_status = 200, auth_success = True,
      auth_message = Some (js ''Authentication successful''),
      auth_user = Some \<lparr>pub_id = 1, pub_username = js ''demo'', pub_role = js ''user''\<rparr>,
      auth_error = None,
      auth_headers = json_headers @
        [(js ''Set-Cookie'',
          js ''auth-token=HS256.demo; Path=/; HttpOnly; SameSite=Lax; Max-Age=3600'')]\<rparr>"
    unfolding res t u by (simp add: mockUsers_def js_def)
  from inst [of "js ''demo''" "js ''admin123''"] other
  have 2: "authenticate toy_sign 1700000000 (js ''demo'') (js ''admin123'') =
     \<lparr>auth_status = 401, auth_success = False, auth_message = None, auth_user = None,
      auth_error = Some (js ''Invalid username or password''),
      auth_headers = json_headers\<rparr>"
    by blast
  from 1 2 show ?thesis by (rule conjI)
qed

text \<open>
  C1, as the code has it. Under the library's contract, for every whole-number user id,
  username and role: when \<open>generateToken\<close> has produced a token at the clock reading
  \<open>issued\<close>, \<open>verifyToken\<close> applied to it less than an hour (3600 seconds) later succeeds
  and returns the payload with that user id, username and role (and the issuer
  \<open>next-methods-demo\<close>, the audience \<open>next-methods-client\<close>, the time of issue and the
  expiry); applied an hour later or more, it throws
  \<open>Invalid or expired authentication token\<close>.
\<close>

theorem verifyToken_generateToken_within_the_hour:
  assumes contract: "library_contract sign verify"
    and generated: "generateToken sign issued userId username role = Inr token"
  shows "(now < issued + 3600 \<longrightarrow>
            verifyToken verify now token =
              Inr \<lparr>claim_userId = userId, claim_username = username, claim_role = role,
                   claim_iat = issued, claim_iss = JWT_issuer, claim_aud = JWT_audience,
                   claim_exp = issued + 3600\<rparr>)
       \<and> (issued + 3600 \<le> now \<longrightarrow>
            verifyToken verify now token = Inl (js ''Invalid or expired authentication token''))"
proof -
  let ?claims = "\<lparr>claim_userId = userId, claim_username = username, claim_role = role,
                   claim_iat = issued, claim_iss = JWT_issuer, claim_aud = JWT_audience,
                   claim_exp = issued + 3600\<rparr>"
  from generated have "sign (js ''HS256'') ?claims secretKey = Some token"
    by (rule generateToken_signed)
  from library_contractD [OF contract this]
  have "verify token secretKey JWT_issuer JWT_audience now =
      (if now < issued + 3600 then Some ?claims else None)"
    by simp
  then show ?thesis
    by (simp add: verifyToken_def)
qed

theorem verifyToken_generateToken_within_the_hour_witness:
  "library_contract plain_sign plain_verify
   \<and> generateToken plain_sign 1700000000 1 (js ''demo'') (js ''user'') =
       Inr (encode_token secretKey
              \<lparr>claim_userId = 1, claim_username = js ''demo'', claim_role = js ''user'',
               claim_iat = 1700000000, claim_iss = JWT_issuer, claim_aud = JWT_audience,
               claim_exp = 1700003600\<rparr>)
   \<and> verifyToken plain_verify 1700003599
        (encode_token secretKey
              \<lparr>claim_userId = 1, claim_username = js ''demo'', claim_role = js ''user'',
               claim_iat = 1700000000, claim_iss = JWT_issuer, claim_aud = JWT_audience,
               claim_exp = 1700003600\<rparr>) =
       Inr \<lparr>claim_userId = 1, claim_username = js ''demo'', claim_role = js ''user'',
            claim_iat = 1700000000, claim_iss = JWT_issuer, claim_aud = JWT_audience,
            claim_exp = 1700003600\<rparr>
   \<and> verifyToken plain_verify 1700003600
        (encode_token secretKey
              \<lparr>claim_userId = 1, claim_username = js ''demo'', claim_role = js ''user'',
               claim_iat = 1700000000, claim_iss = JWT_issuer, claim_aud = JWT_audience,
               claim_exp = 1700003600\<rparr>) =
       Inl (js ''Invalid or expired authentication token'')"
proof -
  have generated: "generateToken plain_sign 1700000000 1 (js ''demo'') (js ''user'') =
       Inr (encode_token secretKey
              \<lparr>claim_userId = 1, claim_username = js ''demo'', claim_role = js ''user'',
               claim_iat = 1700000000, claim_iss = JWT_issuer, claim_aud = JWT_audience,
               claim_exp = 1700003600\<rparr>)"
    using generateToken_plain_sign [of 1700000000 1 "js ''demo''" "js ''user''"] by simp
  note round = verifyToken_generateToken_within_the_hour [OF plain_library_contract generated]
  from round [of 1700003599] round [of 1700003600] plain_library_contract generated
  show ?thesis by simp
qed

text \<open>
  C1 as stated fails once the hour has passed: the token carries the expiry
  \<open>issued + 3600\<close>, and two hours after its issue \<open>verifyToken\<close> throws.
\<close>

theorem verifyToken_expired_counterexample:
  "library_contract plain_sign plain_verify
   \<and> generateToken plain_sign 1700000000 1 (js ''demo'') (js ''user'') =
       Inr (encode_token secretKey
              \<lparr>claim_userId = 1, claim_username = js ''demo'', claim_role = js ''user'',
               claim_iat = 1700000000, claim_iss = JWT_issuer, claim_aud = JWT_audience,
               claim_exp = 1700003600\<rparr>)
   \<and> verifyToken plain_verify 1700007200
        (encode_token secretKey
              \<lparr>claim_userId = 1, claim_username = js ''demo'', claim_role = js ''user'',
               claim_iat = 1700000000, claim_iss = JWT_issuer, claim_aud = JWT_audience,
               claim_exp = 1700003600\<rparr>) =
       Inl (js ''Invalid or expired authentication token'')"
proof -
  have generated: "generateToken plain_sign 1700000000 1 (js ''demo'') (js ''user'') =
       Inr (encode_token secretKey
              \<lparr>claim_userId = 1, claim_username = js ''demo'', claim_role = js ''user'',
               claim_iat = 1700000000, claim_iss = JWT_issuer, claim_aud = JWT_audience,
               claim_exp = 1700003600\<rparr>)"
    using generateToken_plain_sign [of 1700000000 1 "js ''demo''" "js ''user''"] by simp
  have expired: "verifyToken plain_verify 1700007200
        (encode_token secretKey
              \<lparr>claim_userId = 1, claim_username = js ''demo'', claim_role = js ''user'',
               claim_iat = 1700000000, claim_iss = JWT_issuer, claim_aud = JWT_audience,
               claim_exp = 1700003600\<rparr>) =
       Inl (js ''Invalid or expired authentication token'')"
    by (simp add: verifyToken_def plain_verify_encode_token)
  from plain_library_contract generated expired show ?thesis by (intro conjI)
qed

section \<open>The optimistic page\<close>

text \<open>
  C8. When \<open>addPost\<close> reports failure the module's list is unchanged, and when it reports
  success the list has grown by exactly one post, with the given title and content (and
  the id \<open>length + 1\<close>). Hence a submission whose call to \<open>addPost\<close> fails shows, while
  it is pending, the confirmed posts followed by the optimistic entry, and ends with the
  confirmed list as it was before and with the optimistic entry no longer shown.
\<close>

theorem addPost_failure_keeps_posts:
  "(\<not> add_success (fst (addPost random newPost posts)) \<longrightarrow>
      snd (addPost random newPost posts) = posts)
   \<and> (add_success (fst (addPost random newPost posts)) \<longrightarrow>
      snd (addPost random newPost posts) =
        posts @ [\<lparr>post_id = int (length posts) + 1, post_title = fst newPost,
                  post_content = snd newPost\<rparr>])
   \<and> (trim (st_title st) \<noteq> [] \<and> trim (st_content st) \<noteq> []
        \<and> \<not> add_success (fst (addPost random (st_title st, st_content st) (st_mockPosts st))) \<longrightarrow>
      shown_while_pending (handleSubmit now random st) =
        Some (map as_Post (st_mockPosts st) @
          [\<lparr>ui_id = StringId (js ''temp-'' @ js (decimal now)), ui_title = st_title st,
            ui_content = st_content st, ui_optimistic = Some True\<rparr>])
      \<and> st_mockPosts (final_state (handleSubmit now random st)) = st_mockPosts st
      \<and> shown_finally (handleSubmit now random st) = map as_Post (st_mockPosts st)
      \<and> \<lparr>ui_id = StringId (js ''temp-'' @ js (decimal now)), ui_title = st_title st,
          ui_content = st_content st, ui_optimistic = Some True\<rparr>
          \<notin> set (shown_finally (handleSubmit now random st)))"
proof (intro conjI impI)
  assume "\<not> add_success (fst (addPost random newPost posts))"
  then show "snd (addPost random newPost posts) = posts"
    by (simp add: addPost_def Let_def split: if_splits)
next
  assume "add_success (fst (addPost random newPost posts))"
  then show "snd (addPost random newPost posts) =
        posts @ [\<lparr>post_id = int (length posts) + 1, post_title = fst newPost,
                  post_content = snd newPost\<rparr>]"
    by (simp add: addPost_def Let_def split: if_splits)
next
  assume a: "trim (st_title st) \<noteq> [] \<and> trim (st_content st) \<noteq> []
        \<and> \<not> add_success (fst (addPost random (st_title st, st_content st) (st_mockPosts st)))"
  then have "random < 0.2"
    by (simp add: addPost_success_iff)
  then have failed: "addPost random (st_title st, st_content st) (st_mockPosts st) =
    (\<lparr>add_success = False, add_post = None,
      add_error = Some (js ''Failed to save post. Please try again.'')\<rparr>, st_mockPosts st)"
    by (rule addPost_failure)
  from a failed show pending: "shown_while_pending (handleSubmit now random st) =
        Some (map as_Post (st_mockPosts st) @
          [\<lparr>ui_id = StringId (js ''temp-'' @ js (decimal now)), ui_title = st_title st,
            ui_content = st_content st, ui_optimistic = Some True\<rparr>])"
    by (simp add: handleSubmit_def Let_def useOptimistic_def optimistic_reducer_def
        del: decimal.simps)
  from a failed show "st_mockPosts (final_state (handleSubmit now random st)) = st_mockPosts st"
    by (simp add: handleSubmit_def Let_def del: decimal.simps)
  from a failed show finally_shown:
    "shown_finally (handleSubmit now random st) = map as_Post (st_mockPosts st)"
    by (simp add: handleSubmit_def Let_def useOptimistic_settled del: decimal.simps)
  show "\<lparr>ui_id = StringId (js ''temp-'' @ js (decimal now)), ui_title = st_title st,
          ui_content = st_content st, ui_optimistic = Some True\<rparr>
          \<notin> set (shown_finally (handleSubmit now random st))"
    unfolding finally_shown by (rule optimistic_entry_not_confirmed)
qed

theorem addPost_failure_keeps_posts_witness:
  "\<not> add_success (fst (addPost (1 / 10) (js ''Hello'', js ''World'') page_mockPosts))
   \<and> snd (addPost (1 / 10) (js ''Hello'', js ''World'') page_mockPosts) = page_mockPosts
   \<and> add_success (fst (addPost (1 / 2) (js ''Hello'', js ''World'') page_mockPosts))
   \<and> snd (addPost (1 / 2) (js ''Hello'', js ''World'') page_mockPosts) =
       page_mockPosts @ [\<lparr>post_id = 4, post_title = js ''Hello'', post_content = js ''World''\<rparr>]
   \<and> trim (js ''Hello'') \<noteq> [] \<and> trim (js ''World'') \<noteq> []
   \<and> shown_while_pending
        (handleSubmit 1700000000000 (1 / 10)
           \<lparr>st_title = js ''Hello'', st_content = js ''World'', st_isSubmitting = False,
            st_error = None, st_mockPosts = page_mockPosts\<rparr>) =
       Some (map as_Post page_mockPosts @
         [\<lparr>ui_id = StringId (js ''temp-'' @ js (decimal 1700000000000)), ui_title = js ''Hello'',
           ui_content = js ''World'', ui_optimistic = Some True\<rparr>])
   \<and> st_mockPosts (final_state
        (handleSubmit 1700000000000 (1 / 10)
           \<lparr>st_title = js ''Hello'', st_content = js ''World'', st_isSubmitting = False,
            st_error = None, st_mockPosts = page_mockPosts\<rparr>)) = page_mockPosts
   \<and> shown_finally
        (handleSubmit 1700000000000 (1 / 10)
           \<lparr>st_title = js ''Hello'', st_content = js ''World'', st_isSubmitting = False,
            st_error = None, st_mockPosts = page_mockPosts\<rparr>) = map as_Post page_mockPosts"
proof -
  have fails: "\<not> add_success (fst (addPost (1 / 10) (js ''Hello'', js ''World'') page_mockPosts))"
    by (simp add: addPost_success_iff)
  have succeeds: "add_success (fst (addPost (1 / 2) (js ''Hello'', js ''World'') page_mockPosts))"
    by (simp add: addPost_success_iff)
  have hello: "trim (js ''Hello'') \<noteq> []"
    by (simp add: trim_eq_Nil_iff js_def is_white_space_def)
  have world: "trim (js ''World'') \<noteq> []"
    by (simp add: trim_eq_Nil_iff js_def is_white_space_def)
  have len: "int (length page_mockPosts) + 1 = 4"
    by (simp add: page_mockPosts_def)
  note a = addPost_failure_keeps_posts
      [where random = "1 / 10" and newPost = "(js ''Hello'', js ''World'')"
         and posts = page_mockPosts and now = 1700000000000
         and st = "\<lparr>st_title = js ''Hello'', st_content = js ''World'', st_isSubmitting = False,
            st_error = None, st_mockPosts = page_mockPosts\<rparr>"]
  note b = addPost_failure_keeps_posts
      [where random = "1 / 2" and newPost = "(js ''Hello'', js ''World'')"
         and posts = page_mockPosts]
  from a fails hello world have 1:
    "snd (addPost (1 / 10) (js ''Hello'', js ''World'') page_mockPosts) = page_mockPosts
   \<and> shown_while_pending
        (handleSubmit 1700000000000 (1 / 10)
           \<lparr>st_title = js ''Hello'', st_content = js ''World'', st_isSubmitting = False,
            st_error = None, st_mockPosts = page_mockPosts\<rparr>) =
       Some (map as_Post page_mockPosts @
         [\<lparr>ui_id = StringId (js ''temp-'' @ js (decimal 1700000000000)), ui_title = js ''Hello'',
           ui_content = js ''World'', ui_optimistic = Some True\<rparr>])
   \<and> st_mockPosts (final_state
        (handleSubmit 1700000000000 (1 / 10)
           \<lparr>st_title = js ''Hello'', st_content = js ''World'', st_isSubmitting = False,
            st_error = None, st_mockPosts = page_mockPosts\<rparr>)) = page_mockPosts
   \<and> shown_finally
        (handleSubmit 1700000000000 (1 / 10)
           \<lparr>st_title = js ''Hello'', st_content = js ''World'', st_isSubmitting = False,
            st_error = None, st_mockPosts = page_mockPosts\<rparr>) = map as_Post page_mockPosts"
    by (simp del: decimal.simps)
  from b succeeds len have 2:
    "snd (addPost (1 / 2) (js ''Hello'', js ''World'') page_mockPosts) =
       page_mockPosts @ [\<lparr>post_id = 4, post_title = js ''Hello'', post_content = js ''World''\<rparr>]"
    by simp
  from fails succeeds hello world 1 2 show ?thesis by blast
qed

section \<open>The cache demo\<close>

text \<open>
  C9, as the code has it. \<open>getCachedPosts\<close> carries the single label \<open>posts\<close> and returns
  the same three posts on every call. \<open>revalidatePostsImmediately\<close> makes one call to the
  cache, which invalidates the label \<open>posts\<close>, and nothing else; so does \<open>handleAddPost\<close>
  when the form has a non-empty title and content, and otherwise it throws before any
  call and invalidates nothing. Invalidating \<open>posts\<close> makes every entry that carries the
  label invalid and leaves the keys, the labels and every other entry's validity as they
  were.
\<close>

theorem cache_actions_invalidate_posts:
  "call_tags getCachedPosts = [js ''posts'']
   \<and> call_value getCachedPosts =
       [\<lparr>post_id = 1, post_title = js ''Post A'', post_content = js ''Content A''\<rparr>,
        \<lparr>post_id = 2, post_title = js ''Post B'', post_content = js ''Content B''\<rparr>,
        \<lparr>post_id = 3, post_title = js ''Post C'', post_content = js ''Content C''\<rparr>]
   \<and> revalidatePostsImmediately = [UpdateTag (js ''posts'')]
   \<and> (form_truthy (formData (js ''title'')) \<and> form_truthy (formData (js ''content'')) \<longrightarrow>
        handleAddPost formData = (None, [RevalidateTag (js ''posts'') (js ''max'')]))
   \<and> (\<not> (form_truthy (formData (js ''title'')) \<and> form_truthy (formData (js ''content''))) \<longrightarrow>
        handleAddPost formData = (Some (js ''Title and content are required''), []))
   \<and> perform revalidatePostsImmediately c = invalidate (js ''posts'') c
   \<and> perform [RevalidateTag (js ''posts'') (js ''max'')] c = invalidate (js ''posts'') c
   \<and> perform [] c = c
   \<and> length (invalidate (js ''posts'') c) = length c
   \<and> (\<forall>i<length c.
          entry_key (invalidate (js ''posts'') c ! i) = entry_key (c ! i)
        \<and> entry_tags (invalidate (js ''posts'') c ! i) = entry_tags (c ! i)
        \<and> (entry_valid (invalidate (js ''posts'') c ! i) \<longleftrightarrow>
             entry_valid (c ! i) \<and> js ''posts'' \<notin> set (entry_tags (c ! i))))"
proof -
  have tags: "call_tags getCachedPosts = [js ''posts'']"
    by (simp add: getCachedPosts_def)
  have val: "call_value getCachedPosts =
       [\<lparr>post_id = 1, post_title = js ''Post A'', post_content = js ''Content A''\<rparr>,
        \<lparr>post_id = 2, post_title = js ''Post B'', post_content = js ''Content B''\<rparr>,
        \<lparr>post_id = 3, post_title = js ''Post C'', post_content = js ''Content C''\<rparr>]"
    by (simp add: getCachedPosts_def)
  have act: "revalidatePostsImmediately = [UpdateTag (js ''posts'')]"
    by (simp add: revalidatePostsImmediately_def)
  have ok: "form_truthy (formData (js ''title'')) \<and> form_truthy (formData (js ''content'')) \<longrightarrow>
        handleAddPost formData = (None, [RevalidateTag (js ''posts'') (js ''max'')])"
    by (simp add: handleAddPost_def)
  have guard: "\<not> (form_truthy (formData (js ''title'')) \<and> form_truthy (formData (js ''content''))) \<longrightarrow>
        handleAddPost formData = (Some (js ''Title and content are required''), [])"
    by (auto simp: handleAddPost_def)
  have p1: "perform revalidatePostsImmediately c = invalidate (js ''posts'') c"
    by (simp add: act perform_single)
  have p2: "perform [RevalidateTag (js ''posts'') (js ''max'')] c = invalidate (js ''posts'') c"
    by (simp add: perform_single)
  have p3: "perform [] c = c"
    by (rule perform_Nil)
  have len: "length (invalidate (js ''posts'') c) = length c"
    by (rule length_invalidate)
  have entries: "\<forall>i<length c.
          entry_key (invalidate (js ''posts'') c ! i) = entry_key (c ! i)
        \<and> entry_tags (invalidate (js ''posts'') c ! i) = entry_tags (c ! i)
        \<and> (entry_valid (invalidate (js ''posts'') c ! i) \<longleftrightarrow>
             entry_valid (c ! i) \<and> js ''posts'' \<notin> set (entry_tags (c ! i)))"
    using invalidate_nth by blast
  from tags val act ok guard p1 p2 p3 len entries show ?thesis
    by (intro conjI)
qed

theorem cache_actions_invalidate_posts_witness:
  "handleAddPost [js ''title'' \<mapsto> FormString (js ''New''), js ''content'' \<mapsto> FormString (js ''Text'')]
     = (None, [RevalidateTag (js ''posts'') (js ''max'')])
   \<and> handleAddPost [js ''title'' \<mapsto> FormString (js ''New'')]
     = (Some (js ''Title and content are required''), [])
   \<and> perform revalidatePostsImmediately sample_cache
     = [\<lparr>entry_key = js ''getCachedPosts'', entry_tags = [js ''posts''], entry_valid = False\<rparr>,
        \<lparr>entry_key = js ''getCachedUsers'', entry_tags = [js ''users''], entry_valid = True\<rparr>]
   \<and> perform [RevalidateTag (js ''posts'') (js ''max'')] sample_cache
     = [\<lparr>entry_key = js ''getCachedPosts'', entry_tags = [js ''posts''], entry_valid = False\<rparr>,
        \<lparr>entry_key = js ''getCachedUsers'', entry_tags = [js ''users''], entry_valid = True\<rparr>]
   \<and> entry_valid (invalidate (js ''posts'') sample_cache ! 1)
   \<and> \<not> entry_valid (invalidate (js ''posts'') sample_cache ! 0)"
proof -
  have inv: "invalidate (js ''posts'') sample_cache =
      [\<lparr>entry_key = js ''getCachedPosts'', entry_tags = [js ''posts''], entry_valid = False\<rparr>,
       \<lparr>entry_key = js ''getCachedUsers'', entry_tags = [js ''users''], entry_valid = True\<rparr>]"
    by (simp add: invalidate_def sample_cache_def getCachedPosts_def js_eq_iff)
  have len: "length sample_cache = 2"
    by (simp add: sample_cache_def)
  note a = cache_actions_invalidate_posts
      [where c = sample_cache
         and formData = "[js ''title'' \<mapsto> FormString (js ''New''),
                          js ''content'' \<mapsto> FormString (js ''Text'')]"]
  note b = cache_actions_invalidate_posts
      [where c = sample_cache and formData = "[js ''title'' \<mapsto> FormString (js ''New'')]"]
  from a have 1: "handleAddPost [js ''title'' \<mapsto> FormString (js ''New''), js ''content'' \<mapsto> FormString (js ''Text'')]
      = (None, [RevalidateTag (js ''posts'') (js ''max'')])"
    by (simp add: js_eq_iff js_eq_Nil_iff)
  from b have 2: "handleAddPost [js ''title'' \<mapsto> FormString (js ''New'')]
     = (Some (js ''Title and content are required''), [])"
    by (simp add: js_eq_iff js_eq_Nil_iff)
  from a have 3: "perform revalidatePostsImmediately sample_cache = invalidate (js ''posts'') sample_cache"
    and 4: "perform [RevalidateTag (js ''posts'') (js ''max'')] sample_cache = invalidate (js ''posts'') sample_cache"
    by blast+
  from a have all: "\<forall>i<length sample_cache.
     (entry_valid (invalidate (js ''posts'') sample_cache ! i) \<longleftrightarrow>
        entry_valid (sample_cache ! i) \<and> js ''posts'' \<notin> set (entry_tags (sample_cache ! i)))"
    by blast
  from all len have 5: "entry_valid (invalidate (js ''posts'') sample_cache ! 1)"
    by (simp add: sample_cache_def js_eq_iff)
  from all len have 6: "\<not> entry_valid (invalidate (js ''posts'') sample_cache ! 0)"
    by (simp add: sample_cache_def getCachedPosts_def)
  from 1 2 3 4 5 6 show ?thesis
    unfolding inv by blast
qed

text \<open>
  C9 as stated fails for \<open>handleAddPost\<close> on a form without title: it throws before it
  reaches \<open>revalidateTag\<close>, and the entry labelled \<open>posts\<close> stays valid.
\<close>

theorem handleAddPost_guard_counterexample:
  "handleAddPost Map.empty = (Some (js ''Title and content are required''), [])
   \<and> perform (snd (handleAddPost Map.empty)) sample_cache = sample_cache
   \<and> sample_cache ! 0 =
       \<lparr>entry_key = js ''getCachedPosts'', entry_tags = [js ''posts''], entry_valid = True\<rparr>"
  by (simp add: handleAddPost_def perform_def sample_cache_def getCachedPosts_def)

end
